theory Spec2Isabelle
  imports Complex_Main "HOL-Library.Word"
begin

section \<open>Values thrown by the services\<close>

text \<open>
  The TypeScript sources throw and catch three kinds of values: the client's own
  \<open>ApiError\<close> (class \<open>ApiError extends Error\<close>, with a message and a numeric status and the
  name \<open>ApiError\<close>), the provider SDK's \<open>OpenAI.APIError\<close> (whose status may be undefined),
  and every other \<open>Error\<close> instance, identified by its \<open>name\<close> and \<open>message\<close>. A \<open>catch\<close>
  clause receives a value of type \<open>unknown\<close>, which need not be an \<open>Error\<close> at all.
\<close>

datatype thrown =
    ApiError string nat
  | OpenAI_APIError string "nat option"
  | JsError string string
  | NonError

fun instanceof_Error :: "thrown \<Rightarrow> bool" where
  "instanceof_Error NonError = False"
| "instanceof_Error _ = True"

fun error_name :: "thrown \<Rightarrow> string" where
  "error_name (ApiError m s) = ''ApiError''"
| "error_name (OpenAI_APIError m s) = ''Error''"
| "error_name (JsError n m) = n"
| "error_name NonError = []"

fun error_message :: "thrown \<Rightarrow> string" where
  "error_message (ApiError m s) = m"
| "error_message (OpenAI_APIError m s) = m"
| "error_message (JsError n m) = m"
| "error_message NonError = []"

section \<open>Speech route: \<open>getAudioBuffer\<close>\<close>

text \<open>
  A chunk delivered by the stream reader is a \<open>Uint8Array\<close>; the stream is the finite
  sequence of chunks the reader hands out before it reports \<open>done\<close>.
\<close>

type_synonym byte = "8 word"
type_synonym chunk = "byte list"

text \<open>
  The \<open>while (true)\<close> loop: \<open>reader.read()\<close> yields the next chunk of the stream, which is
  pushed onto \<open>chunks\<close>, until the stream is exhausted and the reader reports \<open>done\<close>.
\<close>

fun read_loop :: "chunk list \<Rightarrow> chunk list \<Rightarrow> chunk list" where
  "read_loop [] chunks = chunks"
| "read_loop (v # rest) chunks = read_loop rest (chunks @ [v])"

text \<open>
  \<open>new Uint8Array(n)\<close> is \<open>n\<close> zero bytes. \<open>target.set(source, offset)\<close> copies the source
  into the target from \<open>offset\<close> on and throws a \<open>RangeError\<close> when the source does not fit.
\<close>

definition new_Uint8Array :: "nat \<Rightarrow> byte list" where
  "new_Uint8Array n = replicate n 0"

definition Uint8Array_set :: "byte list \<Rightarrow> chunk \<Rightarrow> nat \<Rightarrow> thrown + byte list" where
  "Uint8Array_set target source offset =
     (if length target < offset + length source
      then Inl (JsError ''RangeError'' ''offset is out of bounds'')
      else Inr (take offset target @ source @ drop (offset + length source) target))"

text \<open>The \<open>for (const chunk of chunks)\<close> loop with its running \<open>offset\<close>.\<close>

fun copy_loop :: "chunk list \<Rightarrow> nat \<Rightarrow> byte list \<Rightarrow> thrown + byte list" where
  "copy_loop [] offset concatenated = Inr concatenated"
| "copy_loop (chunk # chunks) offset concatenated =
     (case Uint8Array_set concatenated chunk offset of
        Inl e \<Rightarrow> Inl e
      | Inr concatenated' \<Rightarrow> copy_loop chunks (offset + length chunk) concatenated')"

definition getAudioBuffer :: "chunk list \<Rightarrow> thrown + byte list" where
  "getAudioBuffer response =
     (let chunks = read_loop response [];
          concatenated = new_Uint8Array (foldl (\<lambda>acc chunk. acc + length chunk) 0 chunks)
      in copy_loop chunks 0 concatenated)"

section \<open>JSON values\<close>

text \<open>
  What \<open>JSON.parse\<close> and \<open>response.json()\<close> hand to the code is an untyped JavaScript
  value; the TypeScript annotations (\<open>FloorPlanAnalysis\<close>, \<open>ApiResponse\<close>) are erased at run
  time. \<open>JObj\<close> lists the own enumerable properties of an object in property order; as in
  every JavaScript object, its keys are pairwise distinct.
\<close>

datatype json =
    JNull
  | JBool bool
  | JNum real
  | JStr string
  | JArr "json list"
  | JObj "(string \<times> json) list"

text \<open>\<open>!v\<close> is \<open>\<not> truthy v\<close>; a missing property (\<open>undefined\<close>) is falsy.\<close>

fun truthy :: "json \<Rightarrow> bool" where
  "truthy JNull = False"
| "truthy (JBool b) = b"
| "truthy (JNum x) = (x \<noteq> 0)"
| "truthy (JStr s) = (s \<noteq> [])"
| "truthy (JArr xs) = True"
| "truthy (JObj kvs) = True"

text \<open>\<open>a || d\<close> on an optional string: the default replaces \<open>undefined\<close> and the empty string.\<close>

definition or_default :: "string option \<Rightarrow> string \<Rightarrow> string" where
  "or_default v d = (case v of None \<Rightarrow> d | Some s \<Rightarrow> if s = [] then d else s)"

text \<open>\<open>s.includes(sub)\<close> on strings.\<close>

fun String_includes :: "string \<Rightarrow> string \<Rightarrow> bool" where
  "String_includes [] sub = (sub = [])"
| "String_includes (c # cs) sub =
     (take (length sub) (c # cs) = sub \<or> String_includes cs sub)"

text \<open>\<open>xs.slice(start)\<close>: a negative start counts from the end, clamped to the array.\<close>

definition Array_slice :: "'a list \<Rightarrow> int \<Rightarrow> 'a list" where
  "Array_slice xs start =
     (let len = int (length xs);
          k = (if start < 0 then max (len + start) 0 else min start len)
      in drop (nat k) xs)"

section \<open>Requests, responses and the observable trace\<close>

record File =
  file_name :: string
  file_type :: string
  file_size :: nat

datatype sender = User | Assistant

record ChatMessage =
  msg_id :: "string + nat"
  msg_text :: string
  msg_sender :: sender
  msg_timestamp :: nat

record ChatContext =
  analysis :: json
  previousMessages :: "ChatMessage list"

datatype request_body =
    FormData "File option"
  | TtsBody string
  | ChatBody string json "ChatMessage list"

datatype role = System | RoleUser | RoleAssistant

datatype provider_request =
    VisionRequest string string
  | ChatRequest string "(role \<times> string) list"

text \<open>
  The effects of a call, in the order they happen: arming and clearing the timeout timer,
  the network call, the abort issued by the timer, the provider call, the wait before a
  retry (in milliseconds) and the diagnostic log line.
\<close>

datatype event =
    SetTimeout nat
  | Fetch string request_body
  | Abort
  | ClearTimeout
  | Create provider_request
  | Delay nat
  | LogError string

primrec delays :: "event list \<Rightarrow> nat list" where
  "delays [] = []"
| "delays (ev # evs) = (case ev of Delay ms \<Rightarrow> ms # delays evs | _ \<Rightarrow> delays evs)"

primrec fetches :: "event list \<Rightarrow> (string \<times> request_body) list" where
  "fetches [] = []"
| "fetches (ev # evs) = (case ev of Fetch url b \<Rightarrow> (url, b) # fetches evs | _ \<Rightarrow> fetches evs)"

primrec creates :: "event list \<Rightarrow> provider_request list" where
  "creates [] = []"
| "creates (ev # evs) = (case ev of Create r \<Rightarrow> r # creates evs | _ \<Rightarrow> creates evs)"

text \<open>
  What the network does to one \<open>fetch\<close>: the timer fires before a response arrives, the call
  rejects for another reason, or it resolves with a status and a body (\<open>None\<close> when reading
  the body rejects).
\<close>

datatype 'b fetch_outcome = TimedOut | Rejects thrown | Resolves nat "'b option"

definition ok :: "nat \<Rightarrow> bool" where
  "ok st = (200 \<le> st \<and> st \<le> 299)"

section \<open>Client gateway: \<open>ApiService\<close>\<close>

record ApiResponse =
  parsedAnalysis :: "json option"
  error :: "string option"

text \<open>The untyped \<open>data\<close> of the chat endpoint, read at \<open>data.error\<close> and \<open>data.text\<close>.\<close>

record ChatData =
  data_text :: "string option"
  data_error :: "string option"

record ApiServiceConfig =
  config_baseUrl :: string
  config_timeout :: "nat option"
  config_maxRetries :: "nat option"

record ApiService =
  baseUrl :: string
  timeout :: nat
  maxRetries :: nat

text \<open>
  The constructor; \<open>env\<close> is \<open>process.env.NEXT_PUBLIC_API_URL\<close>. The operator \<open>||\<close> replaces a
  missing value and also the falsy values \<open>""\<close> and \<open>0\<close>.
\<close>

definition number_or :: "nat option \<Rightarrow> nat \<Rightarrow> nat" where
  "number_or v d = (case v of None \<Rightarrow> d | Some n \<Rightarrow> if n = 0 then d else n)"

definition new_ApiService :: "string option \<Rightarrow> ApiServiceConfig \<Rightarrow> ApiService" where
  "new_ApiService env config =
     \<lparr>baseUrl = or_default (Some (config_baseUrl config))
                  (or_default env ''http://localhost:3000/api''),
      timeout = number_or (config_timeout config) 30000,
      maxRetries = number_or (config_maxRetries config) 3\<rparr>"

definition apiService :: "string option \<Rightarrow> ApiService" where
  "apiService env = new_ApiService env
     \<lparr>config_baseUrl = or_default env ''http://localhost:3000/api'',
      config_timeout = Some 30000, config_maxRetries = Some 3\<rparr>"

definition MAX_FILE_SIZE :: nat where
  "MAX_FILE_SIZE = 5 * 1024 * 1024"

definition ALLOWED_FILE_TYPES :: "string list" where
  "ALLOWED_FILE_TYPES = [''image/jpeg'', ''image/png'', ''image/webp'']"

definition validateFile :: "File option \<Rightarrow> thrown + unit" where
  "validateFile file =
     (case file of
        None \<Rightarrow> Inl (JsError ''Error'' ''No file provided'')
      | Some f \<Rightarrow>
          if file_type f \<notin> set ALLOWED_FILE_TYPES
          then Inl (JsError ''Error'' ''Unsupported file type. Please upload JPEG, PNG or WebP'')
          else if MAX_FILE_SIZE < file_size f
          then Inl (JsError ''Error'' ''File is too large. Maximum size is 5MB'')
          else Inr ())"

definition retryableStatuses :: "nat list" where
  "retryableStatuses = [408, 429, 500, 502, 503, 504]"

fun ApiService_shouldRetry :: "thrown \<Rightarrow> bool" where
  "ApiService_shouldRetry (ApiError m s) = (s \<in> set retryableStatuses)"
| "ApiService_shouldRetry _ = False"

fun normalizeError :: "thrown \<Rightarrow> thrown" where
  "normalizeError NonError = JsError ''Error'' ''An unexpected error occurred''"
| "normalizeError e = e"

text \<open>
  The lines the three \<open>try\<close> blocks share: arm the timer with \<open>this.timeout\<close>, issue the
  \<open>fetch\<close> with the controller's signal, and clear the timer once the call has resolved.
  When the timer fires first, \<open>controller.abort()\<close> makes the call reject with an error
  named \<open>AbortError\<close>; a call that rejects leaves the \<open>try\<close> block before \<open>clearTimeout\<close>.
\<close>

definition fetch_with_timeout ::
  "ApiService \<Rightarrow> string \<Rightarrow> request_body \<Rightarrow> 'b fetch_outcome
    \<Rightarrow> (thrown + nat \<times> 'b option) \<times> event list" where
  "fetch_with_timeout svc path req outcome =
     (case outcome of
        TimedOut \<Rightarrow>
          (Inl (JsError ''AbortError'' ''This operation was aborted''),
           [SetTimeout (timeout svc), Fetch (baseUrl svc @ path) req, Abort])
      | Rejects e \<Rightarrow> (Inl e, [SetTimeout (timeout svc), Fetch (baseUrl svc @ path) req])
      | Resolves st b \<Rightarrow>
          (Inr (st, b),
           [SetTimeout (timeout svc), Fetch (baseUrl svc @ path) req, ClearTimeout]))"

text \<open>The \<open>try\<close> block of \<open>analyzeImage\<close>: one attempt.\<close>

definition analyzeImage_try ::
  "ApiService \<Rightarrow> ApiResponse fetch_outcome \<Rightarrow> File option \<Rightarrow> (thrown + json) \<times> event list" where
  "analyzeImage_try svc outcome file =
     (case validateFile file of
        Inl e \<Rightarrow> (Inl e, [])
      | Inr u \<Rightarrow>
          (case fetch_with_timeout svc ''/analyze'' (FormData file) outcome of
             (Inl e, evs) \<Rightarrow> (Inl e, evs)
           | (Inr (st, b), evs) \<Rightarrow>
               (case b of
                  None \<Rightarrow> (Inl (JsError ''SyntaxError'' ''Unexpected end of JSON input''), evs)
                | Some data \<Rightarrow>
                    if \<not> ok st
                    then (Inl (ApiError (or_default (error data) ''Failed to analyze image'') st),
                          evs)
                    else (case parsedAnalysis data of
                            None \<Rightarrow> (Inl (JsError ''Error'' ''Invalid response format''), evs)
                          | Some a \<Rightarrow>
                              if truthy a then (Inr a, evs)
                              else (Inl (JsError ''Error'' ''Invalid response format''), evs)))))"

text \<open>
  \<open>analyzeImage\<close> with its \<open>catch\<close> block; \<open>net n\<close> is what the network does to the call
  issued with \<open>retryCount = n\<close>.
\<close>

function ApiService_analyzeImage ::
  "ApiService \<Rightarrow> (nat \<Rightarrow> ApiResponse fetch_outcome) \<Rightarrow> File option \<Rightarrow> nat
    \<Rightarrow> (thrown + json) \<times> event list" where
  "ApiService_analyzeImage svc net file retryCount =
     (case analyzeImage_try svc (net retryCount) file of
        (Inr a, evs) \<Rightarrow> (Inr a, evs)
      | (Inl e, evs) \<Rightarrow>
          if instanceof_Error e \<and> error_name e = ''AbortError''
          then (Inl (JsError ''Error'' ''Request timeout''), evs)
          else if instanceof_Error e \<and> ApiService_shouldRetry e \<and> retryCount < maxRetries svc
          then (case ApiService_analyzeImage svc net file (retryCount + 1) of
                  (r, evs') \<Rightarrow> (r, evs @ Delay (1000 * (retryCount + 1)) # evs'))
          else (Inl (normalizeError e), evs @ [LogError ''Image analysis error:'']))"
  by pat_completeness auto
termination
  by (relation "measure (\<lambda>(svc, net, file, retryCount). maxRetries svc - retryCount)") auto

declare ApiService_analyzeImage.simps [simp del]

text \<open>\<open>generateSpeech\<close>: the status is checked before the body is read as a blob.\<close>

definition generateSpeech_try ::
  "ApiService \<Rightarrow> (byte list) fetch_outcome \<Rightarrow> string \<Rightarrow> (thrown + byte list) \<times> event list" where
  "generateSpeech_try svc outcome txt =
     (case fetch_with_timeout svc ''/tts'' (TtsBody txt) outcome of
        (Inl e, evs) \<Rightarrow> (Inl e, evs)
      | (Inr (st, b), evs) \<Rightarrow>
          if \<not> ok st then (Inl (ApiError ''Failed to generate speech'' st), evs)
          else (case b of
                  None \<Rightarrow> (Inl (JsError ''TypeError'' ''Failed to fetch''), evs)
                | Some blob \<Rightarrow> (Inr blob, evs)))"

function ApiService_generateSpeech ::
  "ApiService \<Rightarrow> (nat \<Rightarrow> (byte list) fetch_outcome) \<Rightarrow> string \<Rightarrow> nat
    \<Rightarrow> (thrown + byte list) \<times> event list" where
  "ApiService_generateSpeech svc net txt retryCount =
     (case generateSpeech_try svc (net retryCount) txt of
        (Inr blob, evs) \<Rightarrow> (Inr blob, evs)
      | (Inl e, evs) \<Rightarrow>
          if instanceof_Error e \<and> error_name e = ''AbortError''
          then (Inl (JsError ''Error'' ''Request timeout''), evs)
          else if instanceof_Error e \<and> ApiService_shouldRetry e \<and> retryCount < maxRetries svc
          then (case ApiService_generateSpeech svc net txt (retryCount + 1) of
                  (r, evs') \<Rightarrow> (r, evs @ Delay (1000 * (retryCount + 1)) # evs'))
          else (Inl (normalizeError e), evs @ [LogError ''Speech generation error:'']))"
  by pat_completeness auto
termination
  by (relation "measure (\<lambda>(svc, net, txt, retryCount). maxRetries svc - retryCount)") auto

declare ApiService_generateSpeech.simps [simp del]

text \<open>
  \<open>sendChatMessage\<close>: the body carries the message, the analysis and
  \<open>previousMessages.slice(-5)\<close>; the result is \<open>data.text\<close>, which may be missing.
\<close>

definition sendChatMessage_try ::
  "ApiService \<Rightarrow> ChatData fetch_outcome \<Rightarrow> string \<Rightarrow> ChatContext
    \<Rightarrow> (thrown + string option) \<times> event list" where
  "sendChatMessage_try svc outcome message context =
     (case fetch_with_timeout svc ''/chat''
             (ChatBody message (analysis context) (Array_slice (previousMessages context) (- 5)))
             outcome of
        (Inl e, evs) \<Rightarrow> (Inl e, evs)
      | (Inr (st, b), evs) \<Rightarrow>
          (case b of
             None \<Rightarrow> (Inl (JsError ''SyntaxError'' ''Unexpected end of JSON input''), evs)
           | Some data \<Rightarrow>
               if \<not> ok st
               then (Inl (ApiError (or_default (data_error data) ''Failed to send chat message'') st),
                     evs)
               else (Inr (data_text data), evs)))"

function ApiService_sendChatMessage ::
  "ApiService \<Rightarrow> (nat \<Rightarrow> ChatData fetch_outcome) \<Rightarrow> string \<Rightarrow> ChatContext \<Rightarrow> nat
    \<Rightarrow> (thrown + string option) \<times> event list" where
  "ApiService_sendChatMessage svc net message context retryCount =
     (case sendChatMessage_try svc (net retryCount) message context of
        (Inr t, evs) \<Rightarrow> (Inr t, evs)
      | (Inl e, evs) \<Rightarrow>
          if instanceof_Error e \<and> error_name e = ''AbortError''
          then (Inl (JsError ''Error'' ''Request timeout''), evs)
          else if instanceof_Error e \<and> ApiService_shouldRetry e \<and> retryCount < maxRetries svc
          then (case ApiService_sendChatMessage svc net message context (retryCount + 1) of
                  (r, evs') \<Rightarrow> (r, evs @ Delay (1000 * (retryCount + 1)) # evs'))
          else (Inl (normalizeError e), evs @ [LogError ''Chat message error:'']))"
  by pat_completeness auto
termination
  by (relation "measure (\<lambda>(svc, net, message, context, retryCount). maxRetries svc - retryCount)")
    auto

declare ApiService_sendChatMessage.simps [simp del]

section \<open>Analysis service: \<open>AiAnalyzerService\<close>\<close>

text \<open>
  One choice of a provider completion: its \<open>finish_reason\<close> and \<open>message.content\<close> (which
  may be \<open>null\<close>). A call of \<open>openai.chat.completions.create\<close> either throws or resolves
  with a response whose \<open>choices\<close> may be missing.
\<close>

record Choice =
  finish_reason :: string
  content :: "string option"

datatype completion = CreateThrows thrown | Completion "Choice list option"

definition AiAnalyzerService_MAX_RETRIES :: nat where
  "AiAnalyzerService_MAX_RETRIES = 2"

definition AiAnalyzerService_RETRY_DELAY :: nat where
  "AiAnalyzerService_RETRY_DELAY = 500"

fun AiAnalyzerService_shouldRetry :: "thrown \<Rightarrow> bool" where
  "AiAnalyzerService_shouldRetry (OpenAI_APIError m s) = (s = Some 429 \<or> s = Some 500)"
| "AiAnalyzerService_shouldRetry _ = False"

text \<open>
  Reading the property \<open>scores\<close> or \<open>recommendations\<close> of a parsed value: a \<open>TypeError\<close> on
  \<open>null\<close>, the own property of an object, and \<open>undefined\<close> (here \<open>None\<close>) on arrays and
  primitives, which have no property of either name.
\<close>

fun property :: "json \<Rightarrow> string \<Rightarrow> thrown + json option" where
  "property JNull k = Inl (JsError ''TypeError'' ''Cannot read properties of null'')"
| "property (JObj kvs) k = Inr (map_of kvs k)"
| "property v k = Inr None"

text \<open>
  \<open>Object.values\<close>: the property values of an object, the elements of an array, the
  characters of a string, nothing for a number or a boolean, and a \<open>TypeError\<close> on \<open>null\<close>.
\<close>

fun Object_values :: "json \<Rightarrow> thrown + json list" where
  "Object_values JNull = Inl (JsError ''TypeError'' ''Cannot convert undefined or null to object'')"
| "Object_values (JObj kvs) = Inr (map snd kvs)"
| "Object_values (JArr xs) = Inr xs"
| "Object_values (JStr s) = Inr (map (\<lambda>c. JStr [c]) s)"
| "Object_values v = Inr []"

text \<open>The callback of \<open>every\<close>: a number between 0 and 100.\<close>

fun score_in_range :: "json \<Rightarrow> bool" where
  "score_in_range (JNum x) = (0 \<le> x \<and> x \<le> 100)"
| "score_in_range v = False"

definition areaScoreValid :: "json \<Rightarrow> thrown + bool" where
  "areaScoreValid scores =
     (case Object_values scores of
        Inl e \<Rightarrow> Inl e
      | Inr vs \<Rightarrow> Inr (list_all score_in_range vs))"

definition emptyResponse :: json where
  "emptyResponse =
     JObj [(''scores'', JObj [(''lighting'', JNum 0), (''space'', JNum 0),
                              (''flow'', JNum 0), (''accessibility'', JNum 0)]),
           (''recommendations'', JArr [])]"

text \<open>
  The checks on the parsed value: \<open>!parsedAnalysis.scores || !parsedAnalysis.recommendations\<close>
  (the second operand is read only when the first is false), then \<open>areaScoreValid\<close>.
\<close>

definition check_parsedAnalysis :: "json \<Rightarrow> thrown + json" where
  "check_parsedAnalysis parsed =
     (case property parsed ''scores'' of
        Inl e \<Rightarrow> Inl e
      | Inr None \<Rightarrow> Inl (JsError ''Error'' ''Invalid JSON structure'')
      | Inr (Some scores) \<Rightarrow>
          if \<not> truthy scores then Inl (JsError ''Error'' ''Invalid JSON structure'')
          else (case property parsed ''recommendations'' of
                  Inl e \<Rightarrow> Inl e
                | Inr None \<Rightarrow> Inl (JsError ''Error'' ''Invalid JSON structure'')
                | Inr (Some recommendations) \<Rightarrow>
                    if \<not> truthy recommendations
                    then Inl (JsError ''Error'' ''Invalid JSON structure'')
                    else (case areaScoreValid scores of
                            Inl e \<Rightarrow> Inl e
                          | Inr valid \<Rightarrow>
                              if \<not> valid
                              then Inl (JsError ''Error'' ''Scores are outside valid range (0-100)'')
                              else Inr parsed)))"

text \<open>
  The \<open>try\<close> block of \<open>analyzeImage\<close> after the provider call; \<open>JSON_parse\<close> is the built-in
  \<open>JSON.parse\<close>, \<open>None\<close> where it throws.
\<close>

definition AiAnalyzerService_try :: "(string \<Rightarrow> json option) \<Rightarrow> completion \<Rightarrow> thrown + json" where
  "AiAnalyzerService_try JSON_parse outcome =
     (case outcome of
        CreateThrows e \<Rightarrow> Inl e
      | Completion None \<Rightarrow> Inl (JsError ''Error'' ''No response received from OpenAI'')
      | Completion (Some []) \<Rightarrow> Inl (JsError ''Error'' ''No response received from OpenAI'')
      | Completion (Some (c # cs)) \<Rightarrow>
          if finish_reason c = ''length''
          then Inl (JsError ''Error'' ''The response is too long. Please try again.'')
          else if finish_reason c = ''content_filter''
          then Inl (JsError ''Error'' ''The response was filtered due to content restrictions'')
          else (case content c of
                  None \<Rightarrow> Inl (JsError ''Error'' ''Empty response received'')
                | Some s \<Rightarrow>
                    if s = [] then Inl (JsError ''Error'' ''Empty response received'')
                    else (case JSON_parse s of
                            None \<Rightarrow> Inl (JsError ''Error'' ''Invalid JSON response received'')
                          | Some parsed \<Rightarrow> check_parsedAnalysis parsed)))"

text \<open>
  \<open>analyzeImage\<close> with its \<open>catch\<close> block; \<open>provider n\<close> is what the provider does to the
  call issued with \<open>retryCount = n\<close>.
\<close>

function AiAnalyzerService_analyzeImage ::
  "(string \<Rightarrow> json option) \<Rightarrow> (nat \<Rightarrow> completion) \<Rightarrow> string \<Rightarrow> nat
    \<Rightarrow> (thrown + json) \<times> event list" where
  "AiAnalyzerService_analyzeImage JSON_parse provider imageUrl retryCount =
     (case AiAnalyzerService_try JSON_parse (provider retryCount) of
        Inr parsed \<Rightarrow>
          (Inr parsed, [Create (VisionRequest ''gpt-4o-mini'' imageUrl)])
      | Inl e \<Rightarrow>
          if retryCount < AiAnalyzerService_MAX_RETRIES \<and> AiAnalyzerService_shouldRetry e
          then (case AiAnalyzerService_analyzeImage JSON_parse provider imageUrl (retryCount + 1) of
                  (r, evs') \<Rightarrow>
                    (r, Create (VisionRequest ''gpt-4o-mini'' imageUrl)
                        # Delay (AiAnalyzerService_RETRY_DELAY * (retryCount + 1)) # evs'))
          else (Inr emptyResponse,
                [Create (VisionRequest ''gpt-4o-mini'' imageUrl), LogError ''AI Analyzer Error: '']))"
  by pat_completeness auto
termination
  by (relation "measure (\<lambda>(JSON_parse, provider, imageUrl, retryCount).
        AiAnalyzerService_MAX_RETRIES - retryCount)") auto

declare AiAnalyzerService_analyzeImage.simps [simp del]

text \<open>
  How the interface reads one score of an analysis (\<open>analysis.scores.lighting\<close> and so on):
  the number stored under that name, if there is one.
\<close>

definition score :: "json \<Rightarrow> string \<Rightarrow> real option" where
  "score a name =
     (case a of
        JObj kvs \<Rightarrow>
          (case map_of kvs ''scores'' of
             Some (JObj sc) \<Rightarrow> (case map_of sc name of Some (JNum x) \<Rightarrow> Some x | _ \<Rightarrow> None)
           | _ \<Rightarrow> None)
      | _ \<Rightarrow> None)"

section \<open>Chat service: \<open>AiChatService\<close>\<close>

definition AiChatService_MAX_RETRIES :: nat where
  "AiChatService_MAX_RETRIES = 3"

definition AiChatService_RETRY_DELAY :: nat where
  "AiChatService_RETRY_DELAY = 1000"

fun AiChatService_shouldRetry :: "thrown \<Rightarrow> bool" where
  "AiChatService_shouldRetry (OpenAI_APIError m s) =
     (case s of None \<Rightarrow> False | Some st \<Rightarrow> st = 429 \<or> 500 \<le> st)"
| "AiChatService_shouldRetry _ = False"

text \<open>
  The template literal of \<open>createSystemPrompt\<close>, before and after the interpolated
  \<open>JSON.stringify(analysis, null, 2)\<close>.
\<close>

definition prompt_head :: string where
  "prompt_head =
      ''You are an expert in analyzing floor plans, analyzing the following plan:\<newline>'' @
      ''\<newline>'' @
      ''    Floor plan analysis:\<newline>'' @
      ''    ''"

definition prompt_tail :: string where
  "prompt_tail =
      ''\<newline>'' @
      ''\<newline>'' @
      ''    Answer the user's questions ONLY in the context of this plan and the provided analysis.\<newline>'' @
      ''    If the question is not related to the plan or analysis, politely redirect the conversation back to the plan topic.\<newline>'' @
      ''    \<newline>'' @
      ''    Use specific data from the analysis in your answers:\<newline>'' @
      ''    - Refer to specific assessments (lighting, space, etc.)\<newline>'' @
      ''    - Mention specific recommendations for rooms\<newline>'' @
      ''    - Give practical advice based on the analysis''"

text \<open>\<open>stringify\<close> is the built-in \<open>JSON.stringify(\<cdot>, null, 2)\<close>.\<close>

definition createSystemPrompt :: "(json \<Rightarrow> string) \<Rightarrow> json \<Rightarrow> string" where
  "createSystemPrompt stringify a = prompt_head @ stringify a @ prompt_tail"

definition formatPreviousMessages :: "ChatMessage list \<Rightarrow> (role \<times> string) list" where
  "formatPreviousMessages messages =
     map (\<lambda>msg. (if msg_sender msg = User then RoleUser else RoleAssistant, msg_text msg)) messages"

definition chat_request :: "(json \<Rightarrow> string) \<Rightarrow> string \<Rightarrow> ChatContext \<Rightarrow> provider_request" where
  "chat_request stringify message context =
     ChatRequest ''gpt-4o''
       ((System, createSystemPrompt stringify (analysis context))
        # formatPreviousMessages (previousMessages context) @ [(RoleUser, message)])"

definition AiChatService_try :: "completion \<Rightarrow> thrown + string" where
  "AiChatService_try outcome =
     (case outcome of
        CreateThrows e \<Rightarrow> Inl e
      | Completion None \<Rightarrow> Inl (JsError ''Error'' ''No response received from OpenAI'')
      | Completion (Some []) \<Rightarrow> Inl (JsError ''Error'' ''No response received from OpenAI'')
      | Completion (Some (c # cs)) \<Rightarrow>
          if finish_reason c = ''length'' then Inl (JsError ''Error'' ''The response is too long'')
          else if finish_reason c = ''content_filter''
          then Inl (JsError ''Error'' ''The response was filtered'')
          else (case content c of
                  None \<Rightarrow> Inl (JsError ''Error'' ''Empty response received'')
                | Some s \<Rightarrow>
                    if s = [] then Inl (JsError ''Error'' ''Empty response received'')
                    else Inr s))"

function AiChatService_generateResponse ::
  "(json \<Rightarrow> string) \<Rightarrow> (nat \<Rightarrow> completion) \<Rightarrow> string \<Rightarrow> ChatContext \<Rightarrow> nat
    \<Rightarrow> (thrown + string) \<times> event list" where
  "AiChatService_generateResponse stringify provider message context retryCount =
     (case AiChatService_try (provider retryCount) of
        Inr s \<Rightarrow> (Inr s, [Create (chat_request stringify message context)])
      | Inl e \<Rightarrow>
          if retryCount < AiChatService_MAX_RETRIES \<and> AiChatService_shouldRetry e
          then (case AiChatService_generateResponse stringify provider message context
                       (retryCount + 1) of
                  (r, evs') \<Rightarrow>
                    (r, Create (chat_request stringify message context)
                        # Delay (AiChatService_RETRY_DELAY * (retryCount + 1)) # evs'))
          else (Inl e, [Create (chat_request stringify message context), LogError ''AI Chat Error:'']))"
  by pat_completeness auto
termination
  by (relation "measure (\<lambda>(stringify, provider, message, context, retryCount).
        AiChatService_MAX_RETRIES - retryCount)") auto

declare AiChatService_generateResponse.simps [simp del]

section \<open>Analyze route\<close>

definition route_MAX_FILE_SIZE :: nat where
  "route_MAX_FILE_SIZE = 5 * 1024 * 1024"

definition route_ALLOWED_FILE_TYPES :: "string list" where
  "route_ALLOWED_FILE_TYPES = [''image/jpeg'', ''image/png'', ''image/webp'']"

text \<open>
  The request as the handler reads it: the \<open>Content-Type\<close> header (\<open>None\<close> when absent) and
  what \<open>req.formData()\<close> followed by \<open>get("file")\<close> yields (it may throw; \<open>None\<close> when the form
  has no such field).
\<close>

record Request =
  header_content_type :: "string option"
  form_file :: "thrown + File option"

datatype route_body = ErrorBody string | AnalysisBody json

text \<open>
  The \<open>catch\<close> block of the handler: the status and message for a thrown value;
  \<open>node_env\<close> is \<open>process.env.NODE_ENV\<close>.
\<close>

definition route_failure :: "string \<Rightarrow> thrown \<Rightarrow> nat \<times> route_body" where
  "route_failure node_env e =
     (if instanceof_Error e \<and> String_includes (error_message e) ''Analysis timeout''
      then 504 else 500,
      ErrorBody (if node_env = ''development''
                 then (if instanceof_Error e then error_message e else ''Unknown error'')
                 else ''An error occurred while processing your request''))"

text \<open>
  The handler. \<open>base64\<close> encodes the bytes of the file; \<open>analyzer\<close> is
  \<open>aiAnalyzerService.analyzeImage\<close> as the handler calls it. The result is the response
  (status and body) and the image URLs the analyzer was called with.
\<close>

definition POST_analyze ::
  "string \<Rightarrow> (File \<Rightarrow> string) \<Rightarrow> (string \<Rightarrow> thrown + json) \<Rightarrow> Request
    \<Rightarrow> (nat \<times> route_body) \<times> string list" where
  "POST_analyze node_env base64 analyzer req =
     (if \<not> (case header_content_type req of
               None \<Rightarrow> False
             | Some ct \<Rightarrow> String_includes ct ''multipart/form-data'')
      then ((400, ErrorBody ''Content type must be multipart/form-data''), [])
      else (case form_file req of
              Inl e \<Rightarrow> (route_failure node_env e, [])
            | Inr None \<Rightarrow> ((400, ErrorBody ''No file uploaded''), [])
            | Inr (Some file) \<Rightarrow>
                if file_type file \<notin> set route_ALLOWED_FILE_TYPES
                then ((415, ErrorBody (''File type '' @ file_type file
                         @ '' not supported. Please upload JPEG, PNG or WebP'')), [])
                else if route_MAX_FILE_SIZE < file_size file
                then ((413, ErrorBody ''File size too large. Maximum size is 5MB''), [])
                else (let imageUrl = ''data:'' @ file_type file @ '';base64,'' @ base64 file
                      in case analyzer imageUrl of
                           Inr parsed \<Rightarrow> ((200, AnalysisBody parsed), [imageUrl])
                         | Inl e \<Rightarrow> (route_failure node_env e, [imageUrl]))))"

section \<open>Concrete scenarios\<close>

text \<open>
  The exported service instance without an environment override, three files, and a network
  that answers every call with the same status.
\<close>

definition demo_svc :: ApiService where
  "demo_svc = apiService None"

definition demo_png :: File where
  "demo_png = \<lparr>file_name = ''plan.png'', file_type = ''image/png'', file_size = 2048\<rparr>"

definition demo_gif :: File where
  "demo_gif = \<lparr>file_name = ''plan.gif'', file_type = ''image/gif'', file_size = 2048\<rparr>"

definition demo_big_jpeg :: File where
  "demo_big_jpeg = \<lparr>file_name = ''plan.jpg'', file_type = ''image/jpeg'', file_size = 6 * 1024 * 1024\<rparr>"

definition net_status :: "nat \<Rightarrow> nat \<Rightarrow> ApiResponse fetch_outcome" where
  "net_status st n = Resolves st (Some \<lparr>parsedAnalysis = None, error = Some ''failed''\<rparr>)"

definition demo_fetch :: "event list" where
  "demo_fetch = [SetTimeout 30000,
     Fetch ''http://localhost:3000/api/analyze'' (FormData (Some demo_png)), ClearTimeout]"

text \<open>
  A provider that throws an API error of a given status at every call, one that answers
  every call with a given content, and one that stops every call with a given finish
  reason. \<open>demo_parse\<close> is \<open>JSON.parse\<close> on the four contents used below.
\<close>

definition provider_throws :: "nat \<Rightarrow> nat \<Rightarrow> completion" where
  "provider_throws st n = CreateThrows (OpenAI_APIError ''provider error'' (Some st))"

definition provider_says :: "string \<Rightarrow> nat \<Rightarrow> completion" where
  "provider_says c n = Completion (Some [\<lparr>finish_reason = ''stop'', content = Some c\<rparr>])"

definition provider_finish :: "string \<Rightarrow> nat \<Rightarrow> completion" where
  "provider_finish r n = Completion (Some [\<lparr>finish_reason = r, content = Some ''{''\<rparr>])"

definition partial_content :: string where
  \<open>partial_content = ''{"scores":{"lighting":50},"recommendations":[]}''\<close>

definition partial_analysis :: json where
  "partial_analysis =
     JObj [(''scores'', JObj [(''lighting'', JNum 50)]), (''recommendations'', JArr [])]"

definition out_of_range_content :: string where
  \<open>out_of_range_content =
     ''{"scores":{"lighting":150,"space":10,"flow":10,"accessibility":10},"recommendations":[]}''\<close>

definition out_of_range_analysis :: json where
  "out_of_range_analysis =
     JObj [(''scores'', JObj [(''lighting'', JNum 150), (''space'', JNum 10),
                              (''flow'', JNum 10), (''accessibility'', JNum 10)]),
           (''recommendations'', JArr [])]"

definition no_scores_content :: string where
  \<open>no_scores_content = ''{"recommendations":[]}''\<close>

definition demo_parse :: "string \<Rightarrow> json option" where
  "demo_parse s =
     (if s = partial_content then Some partial_analysis
      else if s = out_of_range_content then Some out_of_range_analysis
      else if s = no_scores_content then Some (JObj [(''recommendations'', JArr [])])
      else None)"

definition demo_request :: provider_request where
  "demo_request = VisionRequest ''gpt-4o-mini'' ''data:image/png;base64,AAAA''"

section \<open>Properties of \<open>getAudioBuffer\<close>\<close>

lemma read_loop_append: "read_loop stream chunks = chunks @ stream"
  by (induction stream arbitrary: chunks) simp_all

lemma foldl_chunk_lengths:
  "foldl (\<lambda>acc chunk. acc + length chunk) a chunks = a + sum_list (map length chunks)"
  by (induction chunks arbitrary: a) simp_all

lemma copy_loop_fits:
  "offset + sum_list (map length chunks) \<le> length buf \<Longrightarrow>
   copy_loop chunks offset buf =
     Inr (take offset buf @ concat chunks @ drop (offset + sum_list (map length chunks)) buf)"
proof (induction chunks arbitrary: offset buf)
  case Nil
  then show ?case by simp
next
  case (Cons c cs)
  let ?buf' = "take offset buf @ c @ drop (offset + length c) buf"
  from Cons.prems have fits: "offset + length c \<le> length buf"
    and rest: "offset + length c + sum_list (map length cs) \<le> length buf"
    by simp_all
  from fits have len: "length ?buf' = length buf" by simp
  from fits have step: "Uint8Array_set buf c offset = Inr ?buf'"
    by (simp add: Uint8Array_set_def)
  from rest len have "copy_loop cs (offset + length c) ?buf' =
      Inr (take (offset + length c) ?buf' @ concat cs
           @ drop (offset + length c + sum_list (map length cs)) ?buf')"
    by (intro Cons.IH) simp
  moreover from fits have pre: "length (take offset buf) = offset"
    by simp
  then have "take (offset + length c) ?buf' = take offset buf @ c"
    by (simp del: length_take)
  moreover from pre have "drop (offset + length c + sum_list (map length cs)) ?buf'
      = drop (offset + length c + sum_list (map length cs)) buf"
    by (simp del: length_take add: ac_simps)
  ultimately show ?case using step by (simp add: ac_simps)
qed

text \<open>
  Claim C9. For every finite sequence of chunks read from the stream, \<open>getAudioBuffer\<close>
  returns (it does not throw) one buffer whose bytes are the chunks concatenated in the
  order they were read, and whose length is the sum of the chunk lengths.
\<close>

theorem getAudioBuffer_concat:
  "getAudioBuffer stream = Inr (concat stream) \<and>
   (\<exists>buf. getAudioBuffer stream = Inr buf \<and> length buf = sum_list (map length stream))"
proof -
  have "copy_loop stream 0 (new_Uint8Array (sum_list (map length stream))) = Inr (concat stream)"
    using copy_loop_fits [of 0 stream "new_Uint8Array (sum_list (map length stream))"]
    by (simp add: new_Uint8Array_def)
  then have "getAudioBuffer stream = Inr (concat stream)"
    by (simp add: getAudioBuffer_def read_loop_append foldl_chunk_lengths)
  then show ?thesis by (simp add: length_concat)
qed

section \<open>Properties of the client gateway\<close>

lemma ApiService_shouldRetry_iff:
  "ApiService_shouldRetry e \<longleftrightarrow>
     (\<exists>m s. e = ApiError m s \<and> s \<in> {408, 429, 500, 502, 503, 504})"
  by (cases e) (auto simp: retryableStatuses_def)

lemma delays_append: "delays (xs @ ys) = delays xs @ delays ys"
  by (induction xs) (simp_all split: event.splits)

lemma fetches_append: "fetches (xs @ ys) = fetches xs @ fetches ys"
  by (induction xs) (simp_all split: event.splits)

lemma creates_append: "creates (xs @ ys) = creates xs @ creates ys"
  by (induction xs) (simp_all split: event.splits)

lemma fetch_with_timeout_delays:
  "fetch_with_timeout svc path req outcome = (r, evs) \<Longrightarrow> delays evs = []"
  by (auto simp: fetch_with_timeout_def split: fetch_outcome.splits)

lemma fetch_with_timeout_fetches:
  "fetch_with_timeout svc path req outcome = (r, evs) \<Longrightarrow>
   fetches evs = [(baseUrl svc @ path, req)]"
  by (auto simp: fetch_with_timeout_def split: fetch_outcome.splits)

lemma analyzeImage_try_delays:
  "analyzeImage_try svc outcome fl = (r, evs) \<Longrightarrow> delays evs = []"
  by (auto simp: analyzeImage_try_def split: sum.splits prod.splits option.splits if_splits
      dest: fetch_with_timeout_delays)

lemma analyzeImage_success:
  assumes "analyzeImage_try svc (net n) fl = (Inr a, evs)"
  shows "ApiService_analyzeImage svc net fl n = (Inr a, evs)"
  using assms by (subst ApiService_analyzeImage.simps) simp

lemma analyzeImage_retry:
  assumes "analyzeImage_try svc (net n) fl = (Inl e, evs)"
    and "ApiService_shouldRetry e" and "n < maxRetries svc"
  shows "ApiService_analyzeImage svc net fl n =
          (fst (ApiService_analyzeImage svc net fl (n + 1)),
           evs @ Delay (1000 * (n + 1)) # snd (ApiService_analyzeImage svc net fl (n + 1)))"
proof -
  from assms(2) obtain m s where e: "e = ApiError m s" by (cases e) auto
  show ?thesis
    using assms by (subst ApiService_analyzeImage.simps) (simp add: e split: prod.splits)
qed

lemma analyzeImage_no_retry:
  assumes "analyzeImage_try svc (net n) fl = (Inl e, evs)"
    and "\<not> (ApiService_shouldRetry e \<and> n < maxRetries svc)"
  shows "ApiService_analyzeImage svc net fl n =
          (if instanceof_Error e \<and> error_name e = ''AbortError''
           then (Inl (JsError ''Error'' ''Request timeout''), evs)
           else (Inl (normalizeError e), evs @ [LogError ''Image analysis error:'']))"
  using assms by (subst ApiService_analyzeImage.simps) auto

lemma analyzeImage_step:
  assumes "analyzeImage_try svc (net n) fl = (Inl e, evs)"
  shows "ApiService_analyzeImage svc net fl n =
          (if ApiService_shouldRetry e \<and> n < maxRetries svc
           then (fst (ApiService_analyzeImage svc net fl (n + 1)),
                 evs @ Delay (1000 * (n + 1)) # snd (ApiService_analyzeImage svc net fl (n + 1)))
           else if instanceof_Error e \<and> error_name e = ''AbortError''
           then (Inl (JsError ''Error'' ''Request timeout''), evs)
           else (Inl (normalizeError e), evs @ [LogError ''Image analysis error:'']))"
proof (cases "ApiService_shouldRetry e \<and> n < maxRetries svc")
  case True
  with assms show ?thesis by (simp add: analyzeImage_retry)
next
  case False
  from analyzeImage_no_retry[of svc net n fl e evs] assms False show ?thesis by simp
qed

lemma analyzeImage_backoff:
  "\<exists>k. n + k \<le> max n (maxRetries svc) \<and>
       delays (snd (ApiService_analyzeImage svc net fl n)) = map (\<lambda>i. 1000 * (i + 1)) [n ..< n + k]"
proof (induction svc net fl n rule: ApiService_analyzeImage.induct)
  case (1 svc net fl n)
  obtain r evs where t: "analyzeImage_try svc (net n) fl = (r, evs)"
    by (cases "analyzeImage_try svc (net n) fl")
  have d: "delays evs = []" using t by (rule analyzeImage_try_delays)
  show ?case
  proof (cases r)
    case (Inr a)
    then have "delays (snd (ApiService_analyzeImage svc net fl n)) = []"
      using t d by (simp add: analyzeImage_success)
    then show ?thesis by (intro exI[of _ 0]) simp
  next
    case (Inl e)
    show ?thesis
    proof (cases "ApiService_shouldRetry e \<and> n < maxRetries svc")
      case True
      then have ne: "\<not> (instanceof_Error e \<and> error_name e = ''AbortError'')"
        and ie: "instanceof_Error e"
        by (cases e; simp)+
      from "1.IH"[OF t[symmetric] Inl ne] True ie obtain k where
        k: "n + 1 + k \<le> max (n + 1) (maxRetries svc)"
          "delays (snd (ApiService_analyzeImage svc net fl (n + 1))) =
             map (\<lambda>i. 1000 * (i + 1)) [n + 1 ..< n + 1 + k]"
        by auto
      have "delays (snd (ApiService_analyzeImage svc net fl n)) =
          1000 * (n + 1) # map (\<lambda>i. 1000 * (i + 1)) [n + 1 ..< n + 1 + k]"
        using analyzeImage_retry[of svc net n fl e evs] t Inl True d k(2)
        by (simp add: delays_append)
      also have "\<dots> = map (\<lambda>i. 1000 * (i + 1)) [n ..< n + (k + 1)]"
        by (simp add: upt_conv_Cons)
      finally show ?thesis using k(1) True by (intro exI[of _ "k + 1"]) auto
    next
      case False
      then have "delays (snd (ApiService_analyzeImage svc net fl n)) = []"
        using analyzeImage_no_retry[of svc net n fl e evs] t Inl d
        by (simp add: delays_append)
      then show ?thesis by (intro exI[of _ 0]) simp
    qed
  qed
qed

lemma generateSpeech_try_delays:
  "generateSpeech_try svc outcome words = (r, evs) \<Longrightarrow> delays evs = []"
  by (auto simp: generateSpeech_try_def split: sum.splits prod.splits option.splits if_splits
      dest: fetch_with_timeout_delays)

lemma generateSpeech_success:
  assumes "generateSpeech_try svc (net n) words = (Inr a, evs)"
  shows "ApiService_generateSpeech svc net words n = (Inr a, evs)"
  using assms by (subst ApiService_generateSpeech.simps) simp

lemma generateSpeech_retry:
  assumes "generateSpeech_try svc (net n) words = (Inl e, evs)"
    and "ApiService_shouldRetry e" and "n < maxRetries svc"
  shows "ApiService_generateSpeech svc net words n =
          (fst (ApiService_generateSpeech svc net words (n + 1)),
           evs @ Delay (1000 * (n + 1)) # snd (ApiService_generateSpeech svc net words (n + 1)))"
proof -
  from assms(2) obtain m s where e: "e = ApiError m s" by (cases e) auto
  show ?thesis
    using assms by (subst ApiService_generateSpeech.simps) (simp add: e split: prod.splits)
qed

lemma generateSpeech_no_retry:
  assumes "generateSpeech_try svc (net n) words = (Inl e, evs)"
    and "\<not> (ApiService_shouldRetry e \<and> n < maxRetries svc)"
  shows "ApiService_generateSpeech svc net words n =
          (if instanceof_Error e \<and> error_name e = ''AbortError''
           then (Inl (JsError ''Error'' ''Request timeout''), evs)
           else (Inl (normalizeError e), evs @ [LogError ''Speech generation error:'']))"
  using assms by (subst ApiService_generateSpeech.simps) auto

lemma generateSpeech_step:
  assumes "generateSpeech_try svc (net n) words = (Inl e, evs)"
  shows "ApiService_generateSpeech svc net words n =
          (if ApiService_shouldRetry e \<and> n < maxRetries svc
           then (fst (ApiService_generateSpeech svc net words (n + 1)),
                 evs @ Delay (1000 * (n + 1)) # snd (ApiService_generateSpeech svc net words (n + 1)))
           else if instanceof_Error e \<and> error_name e = ''AbortError''
           then (Inl (JsError ''Error'' ''Request timeout''), evs)
           else (Inl (normalizeError e), evs @ [LogError ''Speech generation error:'']))"
proof (cases "ApiService_shouldRetry e \<and> n < maxRetries svc")
  case True
  with assms show ?thesis by (simp add: generateSpeech_retry)
next
  case False
  from generateSpeech_no_retry[of svc net n words e evs] assms False show ?thesis by simp
qed

lemma generateSpeech_backoff:
  "\<exists>k. n + k \<le> max n (maxRetries svc) \<and>
       delays (snd (ApiService_generateSpeech svc net words n)) = map (\<lambda>i. 1000 * (i + 1)) [n ..< n + k]"
proof (induction svc net words n rule: ApiService_generateSpeech.induct)
  case (1 svc net words n)
  obtain r evs where t: "generateSpeech_try svc (net n) words = (r, evs)"
    by (cases "generateSpeech_try svc (net n) words")
  have d: "delays evs = []" using t by (rule generateSpeech_try_delays)
  show ?case
  proof (cases r)
    case (Inr a)
    then have "delays (snd (ApiService_generateSpeech svc net words n)) = []"
      using t d by (simp add: generateSpeech_success)
    then show ?thesis by (intro exI[of _ 0]) simp
  next
    case (Inl e)
    show ?thesis
    proof (cases "ApiService_shouldRetry e \<and> n < maxRetries svc")
      case True
      then have ne: "\<not> (instanceof_Error e \<and> error_name e = ''AbortError'')"
        and ie: "instanceof_Error e"
        by (cases e; simp)+
      from "1.IH"[OF t[symmetric] Inl ne] True ie obtain k where
        k: "n + 1 + k \<le> max (n + 1) (maxRetries svc)"
          "delays (snd (ApiService_generateSpeech svc net words (n + 1))) =
             map (\<lambda>i. 1000 * (i + 1)) [n + 1 ..< n + 1 + k]"
        by auto
      have "delays (snd (ApiService_generateSpeech svc net words n)) =
          1000 * (n + 1) # map (\<lambda>i. 1000 * (i + 1)) [n + 1 ..< n + 1 + k]"
        using generateSpeech_retry[of svc net n words e evs] t Inl True d k(2)
        by (simp add: delays_append)
      also have "\<dots> = map (\<lambda>i. 1000 * (i + 1)) [n ..< n + (k + 1)]"
        by (simp add: upt_conv_Cons)
      finally show ?thesis using k(1) True by (intro exI[of _ "k + 1"]) auto
    next
      case False
      then have "delays (snd (ApiService_generateSpeech svc net words n)) = []"
        using generateSpeech_no_retry[of svc net n words e evs] t Inl d
        by (simp add: delays_append)
      then show ?thesis by (intro exI[of _ 0]) simp
    qed
  qed
qed

lemma sendChatMessage_try_delays:
  "sendChatMessage_try svc outcome message ctx = (r, evs) \<Longrightarrow> delays evs = []"
  by (auto simp: sendChatMessage_try_def split: sum.splits prod.splits option.splits if_splits
      dest: fetch_with_timeout_delays)

lemma sendChatMessage_success:
  assumes "sendChatMessage_try svc (net n) message ctx = (Inr a, evs)"
  shows "ApiService_sendChatMessage svc net message ctx n = (Inr a, evs)"
  using assms by (subst ApiService_sendChatMessage.simps) simp

lemma sendChatMessage_retry:
  assumes "sendChatMessage_try svc (net n) message ctx = (Inl e, evs)"
    and "ApiService_shouldRetry e" and "n < maxRetries svc"
  shows "ApiService_sendChatMessage svc net message ctx n =
          (fst (ApiService_sendChatMessage svc net message ctx (n + 1)),
           evs @ Delay (1000 * (n + 1)) # snd (ApiService_sendChatMessage svc net message ctx (n + 1)))"
proof -
  from assms(2) obtain m s where e: "e = ApiError m s" by (cases e) auto
  show ?thesis
    using assms by (subst ApiService_sendChatMessage.simps) (simp add: e split: prod.splits)
qed

lemma sendChatMessage_no_retry:
  assumes "sendChatMessage_try svc (net n) message ctx = (Inl e, evs)"
    and "\<not> (ApiService_shouldRetry e \<and> n < maxRetries svc)"
  shows "ApiService_sendChatMessage svc net message ctx n =
          (if instanceof_Error e \<and> error_name e = ''AbortError''
           then (Inl (JsError ''Error'' ''Request timeout''), evs)
           else (Inl (normalizeError e), evs @ [LogError ''Chat message error:'']))"
  using assms by (subst ApiService_sendChatMessage.simps) auto

lemma sendChatMessage_step:
  assumes "sendChatMessage_try svc (net n) message ctx = (Inl e, evs)"
  shows "ApiService_sendChatMessage svc net message ctx n =
          (if ApiService_shouldRetry e \<and> n < maxRetries svc
           then (fst (ApiService_sendChatMessage svc net message ctx (n + 1)),
                 evs @ Delay (1000 * (n + 1)) # snd (ApiService_sendChatMessage svc net message ctx (n + 1)))
           else if instanceof_Error e \<and> error_name e = ''AbortError''
           then (Inl (JsError ''Error'' ''Request timeout''), evs)
           else (Inl (normalizeError e), evs @ [LogError ''Chat message error:'']))"
proof (cases "ApiService_shouldRetry e \<and> n < maxRetries svc")
  case True
  with assms show ?thesis by (simp add: sendChatMessage_retry)
next
  case False
  from sendChatMessage_no_retry[of svc net n message ctx e evs] assms False show ?thesis by simp
qed

lemma sendChatMessage_backoff:
  "\<exists>k. n + k \<le> max n (maxRetries svc) \<and>
       delays (snd (ApiService_sendChatMessage svc net message ctx n)) = map (\<lambda>i. 1000 * (i + 1)) [n ..< n + k]"
proof (induction svc net message ctx n rule: ApiService_sendChatMessage.induct)
  case (1 svc net message ctx n)
  obtain r evs where t: "sendChatMessage_try svc (net n) message ctx = (r, evs)"
    by (cases "sendChatMessage_try svc (net n) message ctx")
  have d: "delays evs = []" using t by (rule sendChatMessage_try_delays)
  show ?case
  proof (cases r)
    case (Inr a)
    then have "delays (snd (ApiService_sendChatMessage svc net message ctx n)) = []"
      using t d by (simp add: sendChatMessage_success)
    then show ?thesis by (intro exI[of _ 0]) simp
  next
    case (Inl e)
    show ?thesis
    proof (cases "ApiService_shouldRetry e \<and> n < maxRetries svc")
      case True
      then have ne: "\<not> (instanceof_Error e \<and> error_name e = ''AbortError'')"
        and ie: "instanceof_Error e"
        by (cases e; simp)+
      from "1.IH"[OF t[symmetric] Inl ne] True ie obtain k where
        k: "n + 1 + k \<le> max (n + 1) (maxRetries svc)"
          "delays (snd (ApiService_sendChatMessage svc net message ctx (n + 1))) =
             map (\<lambda>i. 1000 * (i + 1)) [n + 1 ..< n + 1 + k]"
        by auto
      have "delays (snd (ApiService_sendChatMessage svc net message ctx n)) =
          1000 * (n + 1) # map (\<lambda>i. 1000 * (i + 1)) [n + 1 ..< n + 1 + k]"
        using sendChatMessage_retry[of svc net n message ctx e evs] t Inl True d k(2)
        by (simp add: delays_append)
      also have "\<dots> = map (\<lambda>i. 1000 * (i + 1)) [n ..< n + (k + 1)]"
        by (simp add: upt_conv_Cons)
      finally show ?thesis using k(1) True by (intro exI[of _ "k + 1"]) auto
    next
      case False
      then have "delays (snd (ApiService_sendChatMessage svc net message ctx n)) = []"
        using sendChatMessage_no_retry[of svc net n message ctx e evs] t Inl d
        by (simp add: delays_append)
      then show ?thesis by (intro exI[of _ 0]) simp
    qed
  qed
qed

lemmas demo_defs = demo_svc_def apiService_def new_ApiService_def number_or_def or_default_def
   demo_png_def net_status_def analyzeImage_try_def validateFile_def ALLOWED_FILE_TYPES_def
   MAX_FILE_SIZE_def fetch_with_timeout_def ok_def retryableStatuses_def demo_fetch_def

text \<open>
  Claim C1. In each of the three operations a failed attempt is retried exactly when the
  failure is an \<open>ApiError\<close> whose status is one of 408, 429, 500, 502, 503, 504 and
  \<open>retryCount\<close> is below \<open>maxRetries\<close>; the wait before the next attempt is
  \<open>1000 * (retryCount + 1)\<close> milliseconds; every other failure ends the call at once, with
  no further event than the log line. Over a whole call the waits are 1000, 2000, ... in
  order, and a call started at 0 makes at most \<open>maxRetries\<close> of them.
\<close>

theorem ApiService_retry_policy:
  fixes netA :: "nat \<Rightarrow> ApiResponse fetch_outcome"
    and netS :: "nat \<Rightarrow> (byte list) fetch_outcome"
    and netC :: "nat \<Rightarrow> ChatData fetch_outcome"
  shows
  "(ApiService_shouldRetry e \<longleftrightarrow>
      (\<exists>m s. e = ApiError m s \<and> s \<in> {408, 429, 500, 502, 503, 504})) \<and>
   (\<forall>e evs. analyzeImage_try svc (netA n) fl = (Inl e, evs) \<longrightarrow>
      ApiService_analyzeImage svc netA fl n =
        (if ApiService_shouldRetry e \<and> n < maxRetries svc
         then (fst (ApiService_analyzeImage svc netA fl (n + 1)),
               evs @ Delay (1000 * (n + 1)) # snd (ApiService_analyzeImage svc netA fl (n + 1)))
         else if instanceof_Error e \<and> error_name e = ''AbortError''
         then (Inl (JsError ''Error'' ''Request timeout''), evs)
         else (Inl (normalizeError e), evs @ [LogError ''Image analysis error:'']))) \<and>
   (\<forall>e evs. generateSpeech_try svc (netS n) words = (Inl e, evs) \<longrightarrow>
      ApiService_generateSpeech svc netS words n =
        (if ApiService_shouldRetry e \<and> n < maxRetries svc
         then (fst (ApiService_generateSpeech svc netS words (n + 1)),
               evs @ Delay (1000 * (n + 1)) # snd (ApiService_generateSpeech svc netS words (n + 1)))
         else if instanceof_Error e \<and> error_name e = ''AbortError''
         then (Inl (JsError ''Error'' ''Request timeout''), evs)
         else (Inl (normalizeError e), evs @ [LogError ''Speech generation error:'']))) \<and>
   (\<forall>e evs. sendChatMessage_try svc (netC n) message ctx = (Inl e, evs) \<longrightarrow>
      ApiService_sendChatMessage svc netC message ctx n =
        (if ApiService_shouldRetry e \<and> n < maxRetries svc
         then (fst (ApiService_sendChatMessage svc netC message ctx (n + 1)),
               evs @ Delay (1000 * (n + 1))
                   # snd (ApiService_sendChatMessage svc netC message ctx (n + 1)))
         else if instanceof_Error e \<and> error_name e = ''AbortError''
         then (Inl (JsError ''Error'' ''Request timeout''), evs)
         else (Inl (normalizeError e), evs @ [LogError ''Chat message error:'']))) \<and>
   (\<exists>k. n + k \<le> max n (maxRetries svc) \<and>
        delays (snd (ApiService_analyzeImage svc netA fl n)) =
          map (\<lambda>i. 1000 * (i + 1)) [n ..< n + k]) \<and>
   (\<exists>k. n + k \<le> max n (maxRetries svc) \<and>
        delays (snd (ApiService_generateSpeech svc netS words n)) =
          map (\<lambda>i. 1000 * (i + 1)) [n ..< n + k]) \<and>
   (\<exists>k. n + k \<le> max n (maxRetries svc) \<and>
        delays (snd (ApiService_sendChatMessage svc netC message ctx n)) =
          map (\<lambda>i. 1000 * (i + 1)) [n ..< n + k])"
proof (intro conjI allI impI)
  show "ApiService_shouldRetry e \<longleftrightarrow>
      (\<exists>m s. e = ApiError m s \<and> s \<in> {408, 429, 500, 502, 503, 504})"
    by (rule ApiService_shouldRetry_iff)
qed (rule analyzeImage_step generateSpeech_step sendChatMessage_step
       analyzeImage_backoff generateSpeech_backoff sendChatMessage_backoff; assumption?)+

theorem ApiService_retry_policy_witness:
  "analyzeImage_try demo_svc (net_status 429 3) (Some demo_png) =
     (Inl (ApiError ''failed'' 429), demo_fetch) \<and>
   maxRetries demo_svc = 3 \<and>
   ApiService_analyzeImage demo_svc (net_status 429) (Some demo_png) 3 =
     (Inl (ApiError ''failed'' 429), demo_fetch @ [LogError ''Image analysis error:'']) \<and>
   ApiService_analyzeImage demo_svc (net_status 429) (Some demo_png) 0 =
     (Inl (ApiError ''failed'' 429),
      demo_fetch @ Delay 1000 # demo_fetch @ Delay 2000 # demo_fetch @ Delay 3000
        # demo_fetch @ [LogError ''Image analysis error:'']) \<and>
   ApiService_analyzeImage demo_svc (net_status 404) (Some demo_png) 0 =
     (Inl (ApiError ''failed'' 404), demo_fetch @ [LogError ''Image analysis error:''])"
proof -
  have t: "analyzeImage_try demo_svc (net_status st n) (Some demo_png) =
      (if ok st then (Inl (JsError ''Error'' ''Invalid response format''), demo_fetch)
       else (Inl (ApiError ''failed'' st), demo_fetch))" for st n
    by (simp add: demo_defs)
  have m: "maxRetries demo_svc = 3" by (simp add: demo_defs)
  note step = ApiService_retry_policy[where svc = demo_svc and fl = "Some demo_png",
      THEN conjunct2, THEN conjunct1, rule_format]
  have s3: "ApiService_analyzeImage demo_svc (net_status 429) (Some demo_png) 3 =
     (Inl (ApiError ''failed'' 429), demo_fetch @ [LogError ''Image analysis error:''])"
    using step[of "net_status 429" 3 "ApiError ''failed'' 429" demo_fetch]
    by (simp add: t m ok_def)
  have s2: "ApiService_analyzeImage demo_svc (net_status 429) (Some demo_png) 2 =
     (Inl (ApiError ''failed'' 429),
      demo_fetch @ Delay 3000 # demo_fetch @ [LogError ''Image analysis error:''])"
    using step[of "net_status 429" 2 "ApiError ''failed'' 429" demo_fetch] s3
    by (simp add: t m ok_def retryableStatuses_def)
  have s1: "ApiService_analyzeImage demo_svc (net_status 429) (Some demo_png) 1 =
     (Inl (ApiError ''failed'' 429),
      demo_fetch @ Delay 2000 # demo_fetch @ Delay 3000 # demo_fetch
        @ [LogError ''Image analysis error:''])"
    using step[of "net_status 429" 1 "ApiError ''failed'' 429" demo_fetch] s2
    by (simp add: t m ok_def retryableStatuses_def numeral_2_eq_2)
  have s0: "ApiService_analyzeImage demo_svc (net_status 429) (Some demo_png) 0 =
     (Inl (ApiError ''failed'' 429),
      demo_fetch @ Delay 1000 # demo_fetch @ Delay 2000 # demo_fetch @ Delay 3000 # demo_fetch
        @ [LogError ''Image analysis error:''])"
    using step[of "net_status 429" 0 "ApiError ''failed'' 429" demo_fetch] s1
    by (simp add: t m ok_def retryableStatuses_def)
  have n0: "ApiService_analyzeImage demo_svc (net_status 404) (Some demo_png) 0 =
     (Inl (ApiError ''failed'' 404), demo_fetch @ [LogError ''Image analysis error:''])"
    using step[of "net_status 404" 0 "ApiError ''failed'' 404" demo_fetch]
    by (simp add: t m ok_def retryableStatuses_def)
  from t[of 429 3] m s3 s0 n0 show ?thesis by (simp add: ok_def)
qed

lemma validateFile_rejects:
  assumes "file_type f \<notin> {''image/jpeg'', ''image/png'', ''image/webp''} \<or>
           5 * 1024 * 1024 < file_size f"
  shows "validateFile (Some f) =
           Inl (JsError ''Error''
                 (if file_type f \<notin> {''image/jpeg'', ''image/png'', ''image/webp''}
                  then ''Unsupported file type. Please upload JPEG, PNG or WebP''
                  else ''File is too large. Maximum size is 5MB''))"
  using assms by (auto simp: validateFile_def ALLOWED_FILE_TYPES_def MAX_FILE_SIZE_def)

text \<open>
  Claim C2. A file whose type is not JPEG, PNG or WebP, or whose size exceeds 5 MiB, makes
  \<open>ApiService.analyzeImage\<close> throw its validation error with no timer, no network call and
  no wait (the log line is the only event), at every \<open>retryCount\<close> and for every network. The
  analyze route, given such a file in a multipart request, answers 415 when the type is not
  allowed and 413 otherwise, and the analyzer is not called. The type is checked first on
  both sides.
\<close>

theorem invalid_file_rejected:
  assumes "file_type f \<notin> {''image/jpeg'', ''image/png'', ''image/webp''} \<or>
           5 * 1024 * 1024 < file_size f"
  shows "ApiService_analyzeImage svc net (Some f) n =
           (Inl (JsError ''Error''
                  (if file_type f \<notin> {''image/jpeg'', ''image/png'', ''image/webp''}
                   then ''Unsupported file type. Please upload JPEG, PNG or WebP''
                   else ''File is too large. Maximum size is 5MB'')),
            [LogError ''Image analysis error:'']) \<and>
         (String_includes ct ''multipart/form-data'' \<longrightarrow>
            POST_analyze node_env base64 analyzer
                \<lparr>header_content_type = Some ct, form_file = Inr (Some f)\<rparr> =
              (if file_type f \<notin> {''image/jpeg'', ''image/png'', ''image/webp''}
               then ((415, ErrorBody (''File type '' @ file_type f
                        @ '' not supported. Please upload JPEG, PNG or WebP'')), [])
               else ((413, ErrorBody ''File size too large. Maximum size is 5MB''), [])))"
proof (intro conjI impI)
  let ?e = "JsError ''Error''
                  (if file_type f \<notin> {''image/jpeg'', ''image/png'', ''image/webp''}
                   then ''Unsupported file type. Please upload JPEG, PNG or WebP''
                   else ''File is too large. Maximum size is 5MB'')"
  have t: "analyzeImage_try svc (net n) (Some f) = (Inl ?e, [])"
    using validateFile_rejects[OF assms] by (simp add: analyzeImage_try_def)
  have "\<not> (ApiService_shouldRetry ?e \<and> n < maxRetries svc)" by simp
  from analyzeImage_no_retry[of svc net n "Some f" ?e "[]", OF t this]
  show "ApiService_analyzeImage svc net (Some f) n = (Inl ?e, [LogError ''Image analysis error:''])"
    by simp
next
  assume "String_includes ct ''multipart/form-data''"
  with assms show "POST_analyze node_env base64 analyzer
                \<lparr>header_content_type = Some ct, form_file = Inr (Some f)\<rparr> =
              (if file_type f \<notin> {''image/jpeg'', ''image/png'', ''image/webp''}
               then ((415, ErrorBody (''File type '' @ file_type f
                        @ '' not supported. Please upload JPEG, PNG or WebP'')), [])
               else ((413, ErrorBody ''File size too large. Maximum size is 5MB''), []))"
    by (auto simp: POST_analyze_def route_ALLOWED_FILE_TYPES_def route_MAX_FILE_SIZE_def)
qed

theorem invalid_file_rejected_witness:
  "ApiService_analyzeImage demo_svc (net_status 200) (Some demo_gif) 0 =
     (Inl (JsError ''Error'' ''Unsupported file type. Please upload JPEG, PNG or WebP''),
      [LogError ''Image analysis error:'']) \<and>
   POST_analyze ''production'' (\<lambda>f. ''AAAA'') (\<lambda>url. Inr emptyResponse)
       \<lparr>header_content_type = Some ''multipart/form-data; boundary=x'',
        form_file = Inr (Some demo_gif)\<rparr> =
     ((415, ErrorBody ''File type image/gif not supported. Please upload JPEG, PNG or WebP''), []) \<and>
   ApiService_analyzeImage demo_svc (net_status 200) (Some demo_big_jpeg) 0 =
     (Inl (JsError ''Error'' ''File is too large. Maximum size is 5MB''),
      [LogError ''Image analysis error:'']) \<and>
   POST_analyze ''production'' (\<lambda>f. ''AAAA'') (\<lambda>url. Inr emptyResponse)
       \<lparr>header_content_type = Some ''multipart/form-data; boundary=x'',
        form_file = Inr (Some demo_big_jpeg)\<rparr> =
     ((413, ErrorBody ''File size too large. Maximum size is 5MB''), [])"
  using invalid_file_rejected[of demo_gif demo_svc "net_status 200" 0
          "''multipart/form-data; boundary=x''" "''production''" "\<lambda>f. ''AAAA''"
          "\<lambda>url. Inr emptyResponse"]
        invalid_file_rejected[of demo_big_jpeg demo_svc "net_status 200" 0
          "''multipart/form-data; boundary=x''" "''production''" "\<lambda>f. ''AAAA''"
          "\<lambda>url. Inr emptyResponse"]
  by (simp add: demo_gif_def demo_big_jpeg_def)

text \<open>
  Claim C5. When the timer of an attempt fires before the response arrives, the call is
  aborted and the operation ends with the error \<open>Request timeout\<close>: the trace of the call is
  the timer, the network call and the abort, with no wait and no further attempt, whatever
  \<open>retryCount\<close> and \<open>maxRetries\<close> are.
\<close>

theorem ApiService_timeout_not_retried:
  fixes netA :: "nat \<Rightarrow> ApiResponse fetch_outcome"
    and netS :: "nat \<Rightarrow> (byte list) fetch_outcome"
    and netC :: "nat \<Rightarrow> ChatData fetch_outcome"
  shows
  "(netA n = TimedOut \<and> validateFile fl = Inr () \<longrightarrow>
      ApiService_analyzeImage svc netA fl n =
        (Inl (JsError ''Error'' ''Request timeout''),
         [SetTimeout (timeout svc), Fetch (baseUrl svc @ ''/analyze'') (FormData fl), Abort])) \<and>
   (netS n = TimedOut \<longrightarrow>
      ApiService_generateSpeech svc netS words n =
        (Inl (JsError ''Error'' ''Request timeout''),
         [SetTimeout (timeout svc), Fetch (baseUrl svc @ ''/tts'') (TtsBody words), Abort])) \<and>
   (netC n = TimedOut \<longrightarrow>
      ApiService_sendChatMessage svc netC message ctx n =
        (Inl (JsError ''Error'' ''Request timeout''),
         [SetTimeout (timeout svc),
          Fetch (baseUrl svc @ ''/chat'')
            (ChatBody message (analysis ctx) (Array_slice (previousMessages ctx) (- 5))),
          Abort]))"
proof (intro conjI impI)
  let ?abort = "JsError ''AbortError'' ''This operation was aborted''"
  have nr: "\<not> (ApiService_shouldRetry ?abort \<and> n < maxRetries svc)" by simp
  {
    assume a: "netA n = TimedOut \<and> validateFile fl = Inr ()"
    let ?evs = "[SetTimeout (timeout svc), Fetch (baseUrl svc @ ''/analyze'') (FormData fl), Abort]"
    from a have "analyzeImage_try svc (netA n) fl = (Inl ?abort, ?evs)"
      by (simp add: analyzeImage_try_def fetch_with_timeout_def)
    from analyzeImage_no_retry[of svc netA n fl ?abort ?evs, OF this nr]
    show "ApiService_analyzeImage svc netA fl n = (Inl (JsError ''Error'' ''Request timeout''), ?evs)"
      by simp
  }
  {
    assume a: "netS n = TimedOut"
    let ?evs = "[SetTimeout (timeout svc), Fetch (baseUrl svc @ ''/tts'') (TtsBody words), Abort]"
    from a have "generateSpeech_try svc (netS n) words = (Inl ?abort, ?evs)"
      by (simp add: generateSpeech_try_def fetch_with_timeout_def)
    from generateSpeech_no_retry[of svc netS n words ?abort ?evs, OF this nr]
    show "ApiService_generateSpeech svc netS words n =
        (Inl (JsError ''Error'' ''Request timeout''), ?evs)"
      by simp
  }
  {
    assume a: "netC n = TimedOut"
    let ?evs = "[SetTimeout (timeout svc),
          Fetch (baseUrl svc @ ''/chat'')
            (ChatBody message (analysis ctx) (Array_slice (previousMessages ctx) (- 5))),
          Abort]"
    from a have "sendChatMessage_try svc (netC n) message ctx = (Inl ?abort, ?evs)"
      by (simp add: sendChatMessage_try_def fetch_with_timeout_def)
    from sendChatMessage_no_retry[of svc netC n message ctx ?abort ?evs, OF this nr]
    show "ApiService_sendChatMessage svc netC message ctx n =
        (Inl (JsError ''Error'' ''Request timeout''), ?evs)"
      by simp
  }
qed

theorem ApiService_timeout_not_retried_witness:
  "maxRetries demo_svc = 3 \<and>
   ApiService_analyzeImage demo_svc (\<lambda>n. TimedOut) (Some demo_png) 0 =
     (Inl (JsError ''Error'' ''Request timeout''),
      [SetTimeout 30000, Fetch ''http://localhost:3000/api/analyze'' (FormData (Some demo_png)),
       Abort]) \<and>
   ApiService_generateSpeech demo_svc (\<lambda>n. TimedOut) ''hello'' 0 =
     (Inl (JsError ''Error'' ''Request timeout''),
      [SetTimeout 30000, Fetch ''http://localhost:3000/api/tts'' (TtsBody ''hello''), Abort]) \<and>
   ApiService_sendChatMessage demo_svc (\<lambda>n. TimedOut) ''hi''
       \<lparr>analysis = emptyResponse, previousMessages = []\<rparr> 0 =
     (Inl (JsError ''Error'' ''Request timeout''),
      [SetTimeout 30000,
       Fetch ''http://localhost:3000/api/chat'' (ChatBody ''hi'' emptyResponse []), Abort])"
  using ApiService_timeout_not_retried[of "\<lambda>n. TimedOut" 0 "Some demo_png" demo_svc
          "\<lambda>n. TimedOut" "''hello''" "\<lambda>n. TimedOut" "''hi''"
          "\<lparr>analysis = emptyResponse, previousMessages = []\<rparr>"]
  by (simp add: demo_defs Array_slice_def)

lemma Array_slice_last5: "Array_slice xs (- 5) = drop (length xs - 5) xs"
proof -
  have "nat (max (int (length xs) + - 5) 0) = length xs - 5" by simp
  then show ?thesis by (simp add: Array_slice_def Let_def)
qed

lemma sendChatMessage_try_fetches:
  "sendChatMessage_try svc outcome message ctx = (r, evs) \<Longrightarrow>
   fetches evs = [(baseUrl svc @ ''/chat'',
     ChatBody message (analysis ctx) (Array_slice (previousMessages ctx) (- 5)))]"
  by (auto simp: sendChatMessage_try_def split: sum.splits prod.splits option.splits if_splits
      dest: fetch_with_timeout_fetches)

lemma sendChatMessage_fetches:
  "fetches (snd (ApiService_sendChatMessage svc net message ctx n)) =
     replicate (Suc (length (delays (snd (ApiService_sendChatMessage svc net message ctx n)))))
       (baseUrl svc @ ''/chat'',
        ChatBody message (analysis ctx) (Array_slice (previousMessages ctx) (- 5)))"
proof (induction svc net message ctx n rule: ApiService_sendChatMessage.induct)
  case (1 svc net message ctx n)
  let ?x = "(baseUrl svc @ ''/chat'',
        ChatBody message (analysis ctx) (Array_slice (previousMessages ctx) (- 5)))"
  obtain r evs where t: "sendChatMessage_try svc (net n) message ctx = (r, evs)"
    by (cases "sendChatMessage_try svc (net n) message ctx")
  have d: "delays evs = []" using t by (rule sendChatMessage_try_delays)
  have f: "fetches evs = [?x]" using t by (rule sendChatMessage_try_fetches)
  show ?case
  proof (cases r)
    case (Inr a)
    with t d f show ?thesis by (simp add: sendChatMessage_success)
  next
    case (Inl e)
    show ?thesis
    proof (cases "ApiService_shouldRetry e \<and> n < maxRetries svc")
      case True
      then have ne: "\<not> (instanceof_Error e \<and> error_name e = ''AbortError'')"
        and ie: "instanceof_Error e"
        by (cases e; simp)+
      from "1.IH"[OF t[symmetric] Inl ne] True ie
      have ih: "fetches (snd (ApiService_sendChatMessage svc net message ctx (n + 1))) =
          replicate (Suc (length (delays (snd (ApiService_sendChatMessage svc net message ctx
            (n + 1)))))) ?x"
        by simp
      show ?thesis
        using sendChatMessage_retry[of svc net n message ctx e evs] t Inl True d f ih
        by (simp add: delays_append fetches_append)
    next
      case False
      show ?thesis
        using sendChatMessage_no_retry[of svc net n message ctx e evs] t Inl False d f
        by (simp add: delays_append fetches_append)
    qed
  qed
qed

text \<open>
  Claim C7. Every request \<open>sendChatMessage\<close> sends to the chat endpoint (the first attempt
  and each retry) carries the message and the analysis as given and, as previous messages,
  the last \<open>min 5 n\<close> of the \<open>n\<close> messages of the context, in their order.
\<close>

theorem sendChatMessage_last_five:
  "\<exists>older sent.
     previousMessages ctx = older @ sent \<and>
     length sent = min 5 (length (previousMessages ctx)) \<and>
     fetches (snd (ApiService_sendChatMessage svc net message ctx n)) =
       replicate (Suc (length (delays (snd (ApiService_sendChatMessage svc net message ctx n)))))
         (baseUrl svc @ ''/chat'', ChatBody message (analysis ctx) sent)"
proof (intro exI conjI)
  let ?xs = "previousMessages ctx"
  show "?xs = take (length ?xs - 5) ?xs @ Array_slice ?xs (- 5)"
    by (simp add: Array_slice_last5)
  show "length (Array_slice ?xs (- 5)) = min 5 (length ?xs)"
    by (simp add: Array_slice_last5)
  show "fetches (snd (ApiService_sendChatMessage svc net message ctx n)) =
       replicate (Suc (length (delays (snd (ApiService_sendChatMessage svc net message ctx n)))))
         (baseUrl svc @ ''/chat'', ChatBody message (analysis ctx) (Array_slice ?xs (- 5)))"
    by (rule sendChatMessage_fetches)
qed

section \<open>Properties of the analysis service\<close>

lemma AiAnalyzerService_shouldRetry_iff:
  "AiAnalyzerService_shouldRetry e \<longleftrightarrow>
     (\<exists>m s. e = OpenAI_APIError m (Some s) \<and> s \<in> {429, 500})"
  by (cases e) auto

lemma analyzer_success:
  assumes "AiAnalyzerService_try JSON_parse (provider n) = Inr a"
  shows "AiAnalyzerService_analyzeImage JSON_parse provider imageUrl n =
           (Inr a, [Create (VisionRequest ''gpt-4o-mini'' imageUrl)])"
  using assms by (subst AiAnalyzerService_analyzeImage.simps) simp

lemma analyzer_retry:
  assumes "AiAnalyzerService_try JSON_parse (provider n) = Inl e"
    and "n < AiAnalyzerService_MAX_RETRIES \<and> AiAnalyzerService_shouldRetry e"
  shows "AiAnalyzerService_analyzeImage JSON_parse provider imageUrl n =
           (fst (AiAnalyzerService_analyzeImage JSON_parse provider imageUrl (n + 1)),
            Create (VisionRequest ''gpt-4o-mini'' imageUrl)
              # Delay (500 * (n + 1))
              # snd (AiAnalyzerService_analyzeImage JSON_parse provider imageUrl (n + 1)))"
  using assms
  by (subst AiAnalyzerService_analyzeImage.simps)
     (simp add: AiAnalyzerService_RETRY_DELAY_def split: prod.splits)

lemma analyzer_no_retry:
  assumes "AiAnalyzerService_try JSON_parse (provider n) = Inl e"
    and "\<not> (n < AiAnalyzerService_MAX_RETRIES \<and> AiAnalyzerService_shouldRetry e)"
  shows "AiAnalyzerService_analyzeImage JSON_parse provider imageUrl n =
           (Inr emptyResponse,
            [Create (VisionRequest ''gpt-4o-mini'' imageUrl), LogError ''AI Analyzer Error: ''])"
  using assms by (subst AiAnalyzerService_analyzeImage.simps) auto

lemma analyzer_result:
  "\<exists>a. fst (AiAnalyzerService_analyzeImage JSON_parse provider imageUrl n) = Inr a \<and>
       (a = emptyResponse \<or>
        (\<exists>k\<ge>n. AiAnalyzerService_try JSON_parse (provider k) = Inr a))"
proof (induction JSON_parse provider imageUrl n rule: AiAnalyzerService_analyzeImage.induct)
  case (1 JSON_parse provider imageUrl n)
  show ?case
  proof (cases "AiAnalyzerService_try JSON_parse (provider n)")
    case (Inr a)
    then show ?thesis by (auto simp: analyzer_success)
  next
    case (Inl e)
    show ?thesis
    proof (cases "n < AiAnalyzerService_MAX_RETRIES \<and> AiAnalyzerService_shouldRetry e")
      case True
      from "1.IH"[OF Inl True] obtain a where
        a: "fst (AiAnalyzerService_analyzeImage JSON_parse provider imageUrl (n + 1)) = Inr a"
          "a = emptyResponse \<or> (\<exists>k\<ge>n + 1. AiAnalyzerService_try JSON_parse (provider k) = Inr a)"
        by blast
      from a(2) have "a = emptyResponse \<or> (\<exists>k\<ge>n. AiAnalyzerService_try JSON_parse (provider k) = Inr a)"
        by (meson add_leD1)
      with a(1) show ?thesis using analyzer_retry[of JSON_parse provider n e imageUrl] Inl True by simp
    next
      case False
      then show ?thesis using analyzer_no_retry[of JSON_parse provider n e imageUrl] Inl False by simp
    qed
  qed
qed

lemma analyzer_backoff:
  "\<exists>k. n + k \<le> max n AiAnalyzerService_MAX_RETRIES \<and>
       delays (snd (AiAnalyzerService_analyzeImage JSON_parse provider imageUrl n)) =
         map (\<lambda>i. 500 * (i + 1)) [n ..< n + k] \<and>
       creates (snd (AiAnalyzerService_analyzeImage JSON_parse provider imageUrl n)) =
         replicate (k + 1) (VisionRequest ''gpt-4o-mini'' imageUrl)"
proof (induction JSON_parse provider imageUrl n rule: AiAnalyzerService_analyzeImage.induct)
  case (1 JSON_parse provider imageUrl n)
  show ?case
  proof (cases "AiAnalyzerService_try JSON_parse (provider n)")
    case (Inr a)
    then show ?thesis by (intro exI[of _ 0]) (simp add: analyzer_success)
  next
    case (Inl e)
    show ?thesis
    proof (cases "n < AiAnalyzerService_MAX_RETRIES \<and> AiAnalyzerService_shouldRetry e")
      case True
      from "1.IH"[OF Inl True] obtain k where
        k: "n + 1 + k \<le> max (n + 1) AiAnalyzerService_MAX_RETRIES"
          "delays (snd (AiAnalyzerService_analyzeImage JSON_parse provider imageUrl (n + 1))) =
             map (\<lambda>i. 500 * (i + 1)) [n + 1 ..< n + 1 + k]"
          "creates (snd (AiAnalyzerService_analyzeImage JSON_parse provider imageUrl (n + 1))) =
             replicate (k + 1) (VisionRequest ''gpt-4o-mini'' imageUrl)"
        by blast
      have "delays (snd (AiAnalyzerService_analyzeImage JSON_parse provider imageUrl n)) =
          500 * (n + 1) # map (\<lambda>i. 500 * (i + 1)) [n + 1 ..< n + 1 + k]"
        using analyzer_retry[of JSON_parse provider n e imageUrl] Inl True k(2) by simp
      also have "\<dots> = map (\<lambda>i. 500 * (i + 1)) [n ..< n + (k + 1)]"
        by (simp add: upt_conv_Cons)
      finally have d: "delays (snd (AiAnalyzerService_analyzeImage JSON_parse provider imageUrl n)) =
          map (\<lambda>i. 500 * (i + 1)) [n ..< n + (k + 1)]" .
      have c: "creates (snd (AiAnalyzerService_analyzeImage JSON_parse provider imageUrl n)) =
          replicate (k + 1 + 1) (VisionRequest ''gpt-4o-mini'' imageUrl)"
        using analyzer_retry[of JSON_parse provider n e imageUrl] Inl True k(3) by simp
      from k(1) True have "n + (k + 1) \<le> max n AiAnalyzerService_MAX_RETRIES" by auto
      with d c show ?thesis by (intro exI[of _ "k + 1"]) simp
    next
      case False
      then show ?thesis
        using analyzer_no_retry[of JSON_parse provider n e imageUrl] Inl False by (intro exI[of _ 0]) simp
    qed
  qed
qed

lemmas analyzer_demo_defs = provider_throws_def provider_says_def provider_finish_def
  partial_content_def partial_analysis_def out_of_range_content_def out_of_range_analysis_def
  no_scores_content_def demo_parse_def demo_request_def AiAnalyzerService_try_def
  check_parsedAnalysis_def areaScoreValid_def AiAnalyzerService_MAX_RETRIES_def

lemma emptyResponse_shape:
  "score emptyResponse ''lighting'' = Some 0 \<and> score emptyResponse ''space'' = Some 0 \<and>
   score emptyResponse ''flow'' = Some 0 \<and> score emptyResponse ''accessibility'' = Some 0 \<and>
   property emptyResponse ''recommendations'' = Inr (Some (JArr []))"
  by (simp add: emptyResponse_def score_def)

text \<open>
  Claim C6. \<open>AiAnalyzerService.analyzeImage\<close> retries a failed attempt exactly when the
  thrown value is an \<open>OpenAI.APIError\<close> with status 429 or 500 and \<open>retryCount\<close> is below 2;
  the wait before the next attempt is \<open>500 * (retryCount + 1)\<close> milliseconds; any other
  failure ends the call. A call started at 0 waits 500 and then 1000 at most, and issues
  one provider request more than it waits.
\<close>

theorem AiAnalyzerService_retry_policy:
  "(AiAnalyzerService_shouldRetry e \<longleftrightarrow>
      (\<exists>m s. e = OpenAI_APIError m (Some s) \<and> s \<in> {429, 500})) \<and>
   (\<forall>e. AiAnalyzerService_try JSON_parse (provider n) = Inl e \<longrightarrow>
      AiAnalyzerService_analyzeImage JSON_parse provider imageUrl n =
        (if AiAnalyzerService_shouldRetry e \<and> n < 2
         then (fst (AiAnalyzerService_analyzeImage JSON_parse provider imageUrl (n + 1)),
               Create (VisionRequest ''gpt-4o-mini'' imageUrl)
                 # Delay (500 * (n + 1))
                 # snd (AiAnalyzerService_analyzeImage JSON_parse provider imageUrl (n + 1)))
         else (Inr emptyResponse,
               [Create (VisionRequest ''gpt-4o-mini'' imageUrl),
                LogError ''AI Analyzer Error: '']))) \<and>
   (\<exists>k\<le>2.
      delays (snd (AiAnalyzerService_analyzeImage JSON_parse provider imageUrl 0)) =
        map (\<lambda>i. 500 * (i + 1)) [0 ..< k] \<and>
      creates (snd (AiAnalyzerService_analyzeImage JSON_parse provider imageUrl 0)) =
        replicate (k + 1) (VisionRequest ''gpt-4o-mini'' imageUrl))"
proof (intro conjI allI impI)
  show "AiAnalyzerService_shouldRetry e \<longleftrightarrow>
      (\<exists>m s. e = OpenAI_APIError m (Some s) \<and> s \<in> {429, 500})"
    by (rule AiAnalyzerService_shouldRetry_iff)
next
  fix e assume t: "AiAnalyzerService_try JSON_parse (provider n) = Inl e"
  show "AiAnalyzerService_analyzeImage JSON_parse provider imageUrl n =
        (if AiAnalyzerService_shouldRetry e \<and> n < 2
         then (fst (AiAnalyzerService_analyzeImage JSON_parse provider imageUrl (n + 1)),
               Create (VisionRequest ''gpt-4o-mini'' imageUrl)
                 # Delay (500 * (n + 1))
                 # snd (AiAnalyzerService_analyzeImage JSON_parse provider imageUrl (n + 1)))
         else (Inr emptyResponse,
               [Create (VisionRequest ''gpt-4o-mini'' imageUrl),
                LogError ''AI Analyzer Error: '']))"
  proof (cases "n < AiAnalyzerService_MAX_RETRIES \<and> AiAnalyzerService_shouldRetry e")
    case True
    with analyzer_retry[of JSON_parse provider n e imageUrl] t show ?thesis
      by (simp add: AiAnalyzerService_MAX_RETRIES_def)
  next
    case False
    with analyzer_no_retry[of JSON_parse provider n e imageUrl] t show ?thesis
      by (auto simp: AiAnalyzerService_MAX_RETRIES_def)
  qed
next
  from analyzer_backoff[of 0 JSON_parse provider imageUrl]
  show "\<exists>k\<le>2.
      delays (snd (AiAnalyzerService_analyzeImage JSON_parse provider imageUrl 0)) =
        map (\<lambda>i. 500 * (i + 1)) [0 ..< k] \<and>
      creates (snd (AiAnalyzerService_analyzeImage JSON_parse provider imageUrl 0)) =
        replicate (k + 1) (VisionRequest ''gpt-4o-mini'' imageUrl)"
    by (auto simp: AiAnalyzerService_MAX_RETRIES_def)
qed

theorem AiAnalyzerService_retry_policy_witness:
  "AiAnalyzerService_try demo_parse (provider_throws 429 2) =
     Inl (OpenAI_APIError ''provider error'' (Some 429)) \<and>
   AiAnalyzerService_analyzeImage demo_parse (provider_throws 429) ''data:image/png;base64,AAAA'' 0 =
     (Inr emptyResponse,
      [Create demo_request, Delay 500, Create demo_request, Delay 1000, Create demo_request,
       LogError ''AI Analyzer Error: '']) \<and>
   AiAnalyzerService_analyzeImage demo_parse (provider_throws 503) ''data:image/png;base64,AAAA'' 0 =
     (Inr emptyResponse, [Create demo_request, LogError ''AI Analyzer Error: ''])"
proof -
  have t: "AiAnalyzerService_try demo_parse (provider_throws st n) =
      Inl (OpenAI_APIError ''provider error'' (Some st))" for st n
    by (simp add: analyzer_demo_defs)
  note step = AiAnalyzerService_retry_policy[where JSON_parse = demo_parse
      and imageUrl = "''data:image/png;base64,AAAA''", THEN conjunct2, THEN conjunct1, rule_format]
  have s2: "AiAnalyzerService_analyzeImage demo_parse (provider_throws 429)
        ''data:image/png;base64,AAAA'' 2 =
      (Inr emptyResponse, [Create demo_request, LogError ''AI Analyzer Error: ''])"
    using step[of "provider_throws 429" 2, OF t] by (simp add: demo_request_def)
  have s1: "AiAnalyzerService_analyzeImage demo_parse (provider_throws 429)
        ''data:image/png;base64,AAAA'' 1 =
      (Inr emptyResponse,
       [Create demo_request, Delay 1000, Create demo_request, LogError ''AI Analyzer Error: ''])"
    using step[of "provider_throws 429" 1, OF t] s2
    by (simp add: demo_request_def numeral_2_eq_2)
  have s0: "AiAnalyzerService_analyzeImage demo_parse (provider_throws 429)
        ''data:image/png;base64,AAAA'' 0 =
      (Inr emptyResponse,
       [Create demo_request, Delay 500, Create demo_request, Delay 1000, Create demo_request,
        LogError ''AI Analyzer Error: ''])"
    using step[of "provider_throws 429" 0, OF t] s1 by (simp add: demo_request_def)
  have n0: "AiAnalyzerService_analyzeImage demo_parse (provider_throws 503)
        ''data:image/png;base64,AAAA'' 0 =
      (Inr emptyResponse, [Create demo_request, LogError ''AI Analyzer Error: ''])"
    using step[of "provider_throws 503" 0, OF t] by (simp add: demo_request_def)
  from t[of 429 2] s0 n0 show ?thesis by simp
qed

text \<open>
  Claim C4. When the attempts with \<open>retryCount\<close> 0 and 1 fail with retryable errors and
  the last attempt, with \<open>retryCount = MAX_RETRIES\<close>, fails as well, \<open>analyzeImage\<close> does not
  throw: after the waits of 500 and 1000 it logs the error and returns the sentinel, whose
  four scores are 0 and whose recommendations are empty.
\<close>

theorem analyzeImage_exhausted_returns_sentinel:
  assumes "\<forall>k<AiAnalyzerService_MAX_RETRIES.
             \<exists>e. AiAnalyzerService_try JSON_parse (provider k) = Inl e \<and>
                 AiAnalyzerService_shouldRetry e"
    and "AiAnalyzerService_try JSON_parse (provider AiAnalyzerService_MAX_RETRIES) = Inl e"
  shows "AiAnalyzerService_analyzeImage JSON_parse provider imageUrl 0 =
           (Inr emptyResponse,
            [Create (VisionRequest ''gpt-4o-mini'' imageUrl), Delay 500,
             Create (VisionRequest ''gpt-4o-mini'' imageUrl), Delay 1000,
             Create (VisionRequest ''gpt-4o-mini'' imageUrl), LogError ''AI Analyzer Error: '']) \<and>
         score emptyResponse ''lighting'' = Some 0 \<and> score emptyResponse ''space'' = Some 0 \<and>
         score emptyResponse ''flow'' = Some 0 \<and>
         score emptyResponse ''accessibility'' = Some 0 \<and>
         property emptyResponse ''recommendations'' = Inr (Some (JArr []))"
proof -
  have m: "AiAnalyzerService_MAX_RETRIES = 2"
    by (simp add: AiAnalyzerService_MAX_RETRIES_def)
  from assms(1)[rule_format, of 0] m obtain e0 where
    e0: "AiAnalyzerService_try JSON_parse (provider 0) = Inl e0" "AiAnalyzerService_shouldRetry e0"
    by auto
  from assms(1)[rule_format, of 1] m obtain e1 where
    e1: "AiAnalyzerService_try JSON_parse (provider 1) = Inl e1" "AiAnalyzerService_shouldRetry e1"
    by auto
  from assms(2) have e2: "AiAnalyzerService_try JSON_parse (provider 2) = Inl e"
    by (simp add: AiAnalyzerService_MAX_RETRIES_def)
  have s2: "AiAnalyzerService_analyzeImage JSON_parse provider imageUrl 2 =
      (Inr emptyResponse,
       [Create (VisionRequest ''gpt-4o-mini'' imageUrl), LogError ''AI Analyzer Error: ''])"
    using analyzer_no_retry[of JSON_parse provider 2 e imageUrl] e2
    by (simp add: AiAnalyzerService_MAX_RETRIES_def)
  have s1: "AiAnalyzerService_analyzeImage JSON_parse provider imageUrl 1 =
      (Inr emptyResponse,
       [Create (VisionRequest ''gpt-4o-mini'' imageUrl), Delay 1000,
        Create (VisionRequest ''gpt-4o-mini'' imageUrl), LogError ''AI Analyzer Error: ''])"
    using analyzer_retry[of JSON_parse provider 1 e1 imageUrl] e1 s2
    by (simp add: AiAnalyzerService_MAX_RETRIES_def numeral_2_eq_2)
  have s0: "AiAnalyzerService_analyzeImage JSON_parse provider imageUrl 0 =
      (Inr emptyResponse,
       [Create (VisionRequest ''gpt-4o-mini'' imageUrl), Delay 500,
        Create (VisionRequest ''gpt-4o-mini'' imageUrl), Delay 1000,
        Create (VisionRequest ''gpt-4o-mini'' imageUrl), LogError ''AI Analyzer Error: ''])"
    using analyzer_retry[of JSON_parse provider 0 e0 imageUrl] e0 s1
    by (simp add: AiAnalyzerService_MAX_RETRIES_def)
  with emptyResponse_shape show ?thesis by simp
qed

theorem analyzeImage_exhausted_returns_sentinel_witness:
  "AiAnalyzerService_try demo_parse (provider_throws 500 0) =
     Inl (OpenAI_APIError ''provider error'' (Some 500)) \<and>
   AiAnalyzerService_shouldRetry (OpenAI_APIError ''provider error'' (Some 500)) \<and>
   AiAnalyzerService_analyzeImage demo_parse (provider_throws 500) ''data:image/png;base64,AAAA'' 0 =
     (Inr emptyResponse,
      [Create demo_request, Delay 500, Create demo_request, Delay 1000, Create demo_request,
       LogError ''AI Analyzer Error: ''])"
proof -
  have t: "AiAnalyzerService_try demo_parse (provider_throws 500 n) =
      Inl (OpenAI_APIError ''provider error'' (Some 500))" for n
    by (simp add: analyzer_demo_defs)
  have r: "AiAnalyzerService_shouldRetry (OpenAI_APIError ''provider error'' (Some 500))"
    by simp
  from t r have a: "\<forall>k<AiAnalyzerService_MAX_RETRIES.
             \<exists>e. AiAnalyzerService_try demo_parse (provider_throws 500 k) = Inl e \<and>
                 AiAnalyzerService_shouldRetry e"
    by simp
  from analyzeImage_exhausted_returns_sentinel[OF a t, of "''data:image/png;base64,AAAA''"] t r
  show ?thesis by (simp add: demo_request_def)
qed

text \<open>
  Claim C10. \<open>AiAnalyzerService.analyzeImage\<close> never throws: its result is always a value,
  either the sentinel or a provider answer that passed the checks of some attempt; and an
  attempt that fails and is not retried (any error once \<open>retryCount\<close> has reached
  \<open>MAX_RETRIES\<close>, any error other than an API error 429 or 500 before) makes the call return
  the sentinel with nothing but the log line after the provider request.
\<close>

theorem analyzeImage_never_throws:
  "(\<exists>a. fst (AiAnalyzerService_analyzeImage JSON_parse provider imageUrl n) = Inr a \<and>
        (a = emptyResponse \<or>
         (\<exists>k\<ge>n. AiAnalyzerService_try JSON_parse (provider k) = Inr a))) \<and>
   (\<forall>e. AiAnalyzerService_try JSON_parse (provider n) = Inl e \<and>
        \<not> (n < AiAnalyzerService_MAX_RETRIES \<and> AiAnalyzerService_shouldRetry e) \<longrightarrow>
        AiAnalyzerService_analyzeImage JSON_parse provider imageUrl n =
          (Inr emptyResponse,
           [Create (VisionRequest ''gpt-4o-mini'' imageUrl), LogError ''AI Analyzer Error: '']))"
proof (intro conjI allI impI)
  show "\<exists>a. fst (AiAnalyzerService_analyzeImage JSON_parse provider imageUrl n) = Inr a \<and>
        (a = emptyResponse \<or>
         (\<exists>k\<ge>n. AiAnalyzerService_try JSON_parse (provider k) = Inr a))"
    by (rule analyzer_result)
next
  fix e
  assume "AiAnalyzerService_try JSON_parse (provider n) = Inl e \<and>
        \<not> (n < AiAnalyzerService_MAX_RETRIES \<and> AiAnalyzerService_shouldRetry e)"
  with analyzer_no_retry[of JSON_parse provider n e imageUrl]
  show "AiAnalyzerService_analyzeImage JSON_parse provider imageUrl n =
          (Inr emptyResponse,
           [Create (VisionRequest ''gpt-4o-mini'' imageUrl), LogError ''AI Analyzer Error: ''])"
    by simp
qed

theorem analyzeImage_never_throws_witness:
  "AiAnalyzerService_analyzeImage demo_parse (\<lambda>n. Completion (Some []))
       ''data:image/png;base64,AAAA'' 0 =
     (Inr emptyResponse, [Create demo_request, LogError ''AI Analyzer Error: '']) \<and>
   AiAnalyzerService_analyzeImage demo_parse (provider_finish ''length'')
       ''data:image/png;base64,AAAA'' 0 =
     (Inr emptyResponse, [Create demo_request, LogError ''AI Analyzer Error: '']) \<and>
   AiAnalyzerService_analyzeImage demo_parse (provider_finish ''content_filter'')
       ''data:image/png;base64,AAAA'' 0 =
     (Inr emptyResponse, [Create demo_request, LogError ''AI Analyzer Error: '']) \<and>
   AiAnalyzerService_analyzeImage demo_parse (provider_says ''not json'')
       ''data:image/png;base64,AAAA'' 0 =
     (Inr emptyResponse, [Create demo_request, LogError ''AI Analyzer Error: '']) \<and>
   AiAnalyzerService_analyzeImage demo_parse (provider_says no_scores_content)
       ''data:image/png;base64,AAAA'' 0 =
     (Inr emptyResponse, [Create demo_request, LogError ''AI Analyzer Error: '']) \<and>
   AiAnalyzerService_analyzeImage demo_parse (provider_says out_of_range_content)
       ''data:image/png;base64,AAAA'' 0 =
     (Inr emptyResponse, [Create demo_request, LogError ''AI Analyzer Error: ''])"
proof -
  note stop = analyzeImage_never_throws[where JSON_parse = demo_parse and n = 0
      and imageUrl = "''data:image/png;base64,AAAA''", THEN conjunct2, rule_format]
  have "AiAnalyzerService_try demo_parse (Completion (Some [])) =
      Inl (JsError ''Error'' ''No response received from OpenAI'')"
    by (simp add: analyzer_demo_defs)
  then have 1: "AiAnalyzerService_analyzeImage demo_parse (\<lambda>n. Completion (Some []))
       ''data:image/png;base64,AAAA'' 0 =
     (Inr emptyResponse, [Create demo_request, LogError ''AI Analyzer Error: ''])"
    using stop[of "\<lambda>n. Completion (Some [])"] by (simp add: demo_request_def)
  have "AiAnalyzerService_try demo_parse (provider_finish ''length'' 0) =
      Inl (JsError ''Error'' ''The response is too long. Please try again.'')"
    by (simp add: analyzer_demo_defs)
  then have 2: "AiAnalyzerService_analyzeImage demo_parse (provider_finish ''length'')
       ''data:image/png;base64,AAAA'' 0 =
     (Inr emptyResponse, [Create demo_request, LogError ''AI Analyzer Error: ''])"
    using stop[of "provider_finish ''length''"] by (simp add: demo_request_def)
  have "AiAnalyzerService_try demo_parse (provider_finish ''content_filter'' 0) =
      Inl (JsError ''Error'' ''The response was filtered due to content restrictions'')"
    by (simp add: analyzer_demo_defs)
  then have 3: "AiAnalyzerService_analyzeImage demo_parse (provider_finish ''content_filter'')
       ''data:image/png;base64,AAAA'' 0 =
     (Inr emptyResponse, [Create demo_request, LogError ''AI Analyzer Error: ''])"
    using stop[of "provider_finish ''content_filter''"] by (simp add: demo_request_def)
  have "AiAnalyzerService_try demo_parse (provider_says ''not json'' 0) =
      Inl (JsError ''Error'' ''Invalid JSON response received'')"
    by (simp add: analyzer_demo_defs)
  then have 4: "AiAnalyzerService_analyzeImage demo_parse (provider_says ''not json'')
       ''data:image/png;base64,AAAA'' 0 =
     (Inr emptyResponse, [Create demo_request, LogError ''AI Analyzer Error: ''])"
    using stop[of "provider_says ''not json''"] by (simp add: demo_request_def)
  have "AiAnalyzerService_try demo_parse (provider_says no_scores_content 0) =
      Inl (JsError ''Error'' ''Invalid JSON structure'')"
    by (simp add: analyzer_demo_defs)
  then have 5: "AiAnalyzerService_analyzeImage demo_parse (provider_says no_scores_content)
       ''data:image/png;base64,AAAA'' 0 =
     (Inr emptyResponse, [Create demo_request, LogError ''AI Analyzer Error: ''])"
    using stop[of "provider_says no_scores_content"] by (simp add: demo_request_def)
  have "AiAnalyzerService_try demo_parse (provider_says out_of_range_content 0) =
      Inl (JsError ''Error'' ''Scores are outside valid range (0-100)'')"
    by (simp add: analyzer_demo_defs)
  then have 6: "AiAnalyzerService_analyzeImage demo_parse (provider_says out_of_range_content)
       ''data:image/png;base64,AAAA'' 0 =
     (Inr emptyResponse, [Create demo_request, LogError ''AI Analyzer Error: ''])"
    using stop[of "provider_says out_of_range_content"] by (simp add: demo_request_def)
  from 1 2 3 4 5 6 show ?thesis by simp
qed

lemma check_parsedAnalysis_range:
  assumes "check_parsedAnalysis p = Inr a" and "score a name = Some x"
  shows "0 \<le> x \<and> x \<le> 100"
proof -
  from assms(2) obtain kvs sc where a: "a = JObj kvs"
    and sc: "map_of kvs ''scores'' = Some (JObj sc)"
    and x: "map_of sc name = Some (JNum x)"
    by (auto simp: score_def split: json.splits option.splits)
  from assms(1) have p: "p = a"
    by (auto simp: check_parsedAnalysis_def split: sum.splits option.splits if_splits)
  from assms(1) a sc p have "list_all score_in_range (map snd sc)"
    by (auto simp: check_parsedAnalysis_def areaScoreValid_def
        split: sum.splits option.splits if_splits)
  moreover from x have "JNum x \<in> set (map snd sc)"
    by (force dest: map_of_SomeD)
  ultimately have "score_in_range (JNum x)"
    by (auto simp: list_all_iff)
  then show ?thesis by simp
qed

lemma AiAnalyzerService_try_checked:
  "AiAnalyzerService_try JSON_parse outcome = Inr a \<Longrightarrow> check_parsedAnalysis a = Inr a"
  by (auto simp: AiAnalyzerService_try_def check_parsedAnalysis_def
      split: completion.splits option.splits list.splits if_splits sum.splits)

lemma returned_scores_in_range:
  assumes "fst (AiAnalyzerService_analyzeImage JSON_parse provider imageUrl n) = Inr a"
    and "score a name = Some x"
  shows "0 \<le> x \<and> x \<le> 100"
proof -
  from analyzer_result[of JSON_parse provider imageUrl n] assms(1)
  consider "a = emptyResponse" | k where "AiAnalyzerService_try JSON_parse (provider k) = Inr a"
    by auto
  then show ?thesis
  proof cases
    case 1
    with assms(2) show ?thesis
      by (auto simp: emptyResponse_def score_def split: if_splits)
  next
    case 2
    from AiAnalyzerService_try_checked[OF 2] assms(2) show ?thesis
      by (rule check_parsedAnalysis_range)
  qed
qed

text \<open>
  Claim C3, evaluated on the code. The provider answers with valid JSON whose \<open>scores\<close>
  object holds \<open>lighting\<close> only. The structure check looks at the two top-level fields and
  \<open>areaScoreValid\<close> at the values that are present, so the answer is returned as the
  analysis, and three of its four scores are missing. (The scores that are present in a
  returned analysis are in range: \<open>returned_scores_in_range\<close>.)
\<close>

theorem analyzeImage_returns_partial_scores:
  "AiAnalyzerService_analyzeImage demo_parse (provider_says partial_content)
       ''data:image/png;base64,AAAA'' 0 =
     (Inr partial_analysis, [Create demo_request]) \<and>
   score partial_analysis ''lighting'' = Some 50 \<and>
   score partial_analysis ''space'' = None \<and>
   score partial_analysis ''flow'' = None \<and>
   score partial_analysis ''accessibility'' = None"
proof -
  have "AiAnalyzerService_try demo_parse (provider_says partial_content 0) = Inr partial_analysis"
    by (simp add: analyzer_demo_defs)
  then have "AiAnalyzerService_analyzeImage demo_parse (provider_says partial_content)
       ''data:image/png;base64,AAAA'' 0 = (Inr partial_analysis, [Create demo_request])"
    by (simp add: analyzer_success demo_request_def)
  then show ?thesis by (simp add: partial_analysis_def score_def)
qed

section \<open>Properties of the chat service\<close>

lemma chat_success:
  assumes "AiChatService_try (provider n) = Inr a"
  shows "AiChatService_generateResponse stringify provider message ctx n =
           (Inr a, [Create (chat_request stringify message ctx)])"
  using assms by (subst AiChatService_generateResponse.simps) simp

lemma chat_retry:
  assumes "AiChatService_try (provider n) = Inl e"
    and "n < AiChatService_MAX_RETRIES \<and> AiChatService_shouldRetry e"
  shows "AiChatService_generateResponse stringify provider message ctx n =
           (fst (AiChatService_generateResponse stringify provider message ctx (n + 1)),
            Create (chat_request stringify message ctx)
              # Delay (1000 * (n + 1))
              # snd (AiChatService_generateResponse stringify provider message ctx (n + 1)))"
  using assms
  by (subst AiChatService_generateResponse.simps)
     (simp add: AiChatService_RETRY_DELAY_def split: prod.splits)

lemma chat_no_retry:
  assumes "AiChatService_try (provider n) = Inl e"
    and "\<not> (n < AiChatService_MAX_RETRIES \<and> AiChatService_shouldRetry e)"
  shows "AiChatService_generateResponse stringify provider message ctx n =
           (Inl e, [Create (chat_request stringify message ctx), LogError ''AI Chat Error:''])"
  using assms by (subst AiChatService_generateResponse.simps) auto

lemma chat_creates:
  "creates (snd (AiChatService_generateResponse stringify provider message ctx n)) =
     replicate
       (Suc (length (delays (snd (AiChatService_generateResponse stringify provider message ctx n)))))
       (chat_request stringify message ctx)"
proof (induction stringify provider message ctx n rule: AiChatService_generateResponse.induct)
  case (1 stringify provider message ctx n)
  show ?case
  proof (cases "AiChatService_try (provider n)")
    case (Inr a)
    then show ?thesis by (simp add: chat_success)
  next
    case (Inl e)
    show ?thesis
    proof (cases "n < AiChatService_MAX_RETRIES \<and> AiChatService_shouldRetry e")
      case True
      from "1.IH"[OF Inl True] chat_retry[of provider n e stringify message ctx] Inl True
      show ?thesis by simp
    next
      case False
      with chat_no_retry[of provider n e stringify message ctx] Inl show ?thesis by simp
    qed
  qed
qed

text \<open>
  Claim C8. Every provider request of \<open>generateResponse\<close> (the first attempt and each retry)
  is the same list of messages: first the system message, whose content is the prompt with
  \<open>JSON.stringify(analysis, null, 2)\<close> embedded unchanged, then the previous messages in order,
  each with the role of its sender and its text, then the user message.
\<close>

theorem generateResponse_embeds_analysis:
  "creates (snd (AiChatService_generateResponse stringify provider message ctx n)) =
     replicate
       (Suc (length (delays (snd (AiChatService_generateResponse stringify provider message ctx n)))))
       (ChatRequest ''gpt-4o''
          ((System, createSystemPrompt stringify (analysis ctx))
           # map (\<lambda>msg. (if msg_sender msg = User then RoleUser else RoleAssistant, msg_text msg))
               (previousMessages ctx)
           @ [(RoleUser, message)])) \<and>
   (\<exists>before after.
      createSystemPrompt stringify (analysis ctx) = before @ stringify (analysis ctx) @ after)"
proof
  show "creates (snd (AiChatService_generateResponse stringify provider message ctx n)) =
     replicate
       (Suc (length (delays (snd (AiChatService_generateResponse stringify provider message ctx n)))))
       (ChatRequest ''gpt-4o''
          ((System, createSystemPrompt stringify (analysis ctx))
           # map (\<lambda>msg. (if msg_sender msg = User then RoleUser else RoleAssistant, msg_text msg))
               (previousMessages ctx)
           @ [(RoleUser, message)]))"
    using chat_creates[of stringify provider message ctx n]
    by (simp add: chat_request_def formatPreviousMessages_def)
  show "\<exists>before after.
      createSystemPrompt stringify (analysis ctx) = before @ stringify (analysis ctx) @ after"
    unfolding createSystemPrompt_def by blast
qed

end
